theory Spec2Isabelle
  imports Main "HOL-Library.AList"
begin

chapter \<open>The menu library: token codec, layout builder, render path and middleware\<close>

text \<open>
  A model of \<^verbatim>\<open>index.ts\<close> of the menu library for grammY bots: \<^verbatim>\<open>buildAction\<close> and
  \<^verbatim>\<open>parseAction\<close>, the class \<^verbatim>\<open>LayoutBuilder\<close>, and the class \<^verbatim>\<open>Menu\<close> with \<^verbatim>\<open>buildLayout\<close>,
  \<^verbatim>\<open>render\<close>, \<^verbatim>\<open>send\<close> and \<^verbatim>\<open>middleware\<close>. The sources hold the code twice; the model follows
  the current one, which has \<^verbatim>\<open>initContext\<close> and \<^verbatim>\<open>onEnter\<close>.

  \<^item> An \<^verbatim>\<open>async\<close> function is a function from the state before to what awaiting it
    gives (a value, a rejection, or nothing when it never settles) and the state after.
  \<^item> The developer's functions are parameters. The loader, \<^verbatim>\<open>onEnter\<close> and the functions
    of dynamic sections read and write the session. A callback function can call
    \<^verbatim>\<open>render\<close> of any menu through \<^verbatim>\<open>ctx.menu\<close>; callback functions are values of a type
    \<open>'cb\<close>, and what running one does is the parameter \<open>run\<close> of the middleware.
  \<^item> The values that \<^verbatim>\<open>nanoid(6)\<close> returns are arguments.
  \<^item> The calls on the host (\<^verbatim>\<open>reply\<close>, \<^verbatim>\<open>editMessageText\<close>, \<^verbatim>\<open>answerCallbackQuery\<close>) are
    recorded in order; whether the host accepts a call is given by the context.
  \<^item> Time is not modelled. A raced promise that has not settled when the timer fires is
    one that gives nothing; what it still does afterwards is left out.
  \<^item> \<^verbatim>\<open>ctx.session\<close> is taken to exist; \<^verbatim>\<open>ctx.session._menu\<close> is any value, \<^verbatim>\<open>undefined\<close>
    before the first menu is built.
  \<^item> Values are copied, not shared: no two properties hold one mutable object. A thrown
    value is any value, \<^verbatim>\<open>null\<close> and \<^verbatim>\<open>undefined\<close> included.
\<close>

section \<open>Action tokens: \<open>buildAction\<close> and \<open>parseAction\<close>\<close>

text \<open>
  The token codec of \<^verbatim>\<open>index.ts\<close>. A JavaScript string is a \<open>string\<close>; the delimiter
  \<open>:\<close> is one ASCII character, so splitting on it is the same on bytes and on UTF-16
  units. An optional value (\<^verbatim>\<open>undefined\<close>) is \<open>None\<close>.
\<close>

definition MENU_PREFIX :: string where
  "MENU_PREFIX = ''eijdfwof''"

datatype Action = Callback

definition ACTION_REPRESENTATION_MAPPING :: "(Action \<times> string) list" where
  "ACTION_REPRESENTATION_MAPPING = [(Callback, ''call'')]"

text \<open>\<^verbatim>\<open>ACTION_REPRESENTATION_MAPPING[action]\<close>; a missing key would print as \<^verbatim>\<open>undefined\<close>
  inside the template string.\<close>

definition representation :: "Action \<Rightarrow> string" where
  "representation a =
     (case map_of ACTION_REPRESENTATION_MAPPING a of Some r \<Rightarrow> r | None \<Rightarrow> ''undefined'')"

text \<open>The template of \<^verbatim>\<open>buildAction\<close>: the target id is appended only when it is truthy,
  that is, given and not the empty string.\<close>

definition buildAction :: "Action \<Rightarrow> string \<Rightarrow> string option \<Rightarrow> string" where
  "buildAction a sourceId targetId =
     MENU_PREFIX @ '':'' @ sourceId @ '':'' @ representation a @
       (case targetId of
          None \<Rightarrow> []
        | Some t \<Rightarrow> if t \<noteq> [] then '':'' @ t else [])"

text \<open>\<^verbatim>\<open>String.prototype.split\<close> with a one-character separator: a string with \<open>k\<close>
  separators gives \<open>k + 1\<close> pieces, the empty string gives one empty piece.\<close>

fun split_on :: "char \<Rightarrow> string \<Rightarrow> string list" where
  "split_on c [] = [[]]"
| "split_on c (x # xs) =
     (if x = c then [] # split_on c xs
      else (case split_on c xs of
              [] \<Rightarrow> [[x]]
            | p # ps \<Rightarrow> (x # p) # ps))"

text \<open>Array destructuring: a position past the end is \<^verbatim>\<open>undefined\<close>.\<close>

fun nth_opt :: "'a list \<Rightarrow> nat \<Rightarrow> 'a option" where
  "nth_opt [] n = None"
| "nth_opt (x # xs) 0 = Some x"
| "nth_opt (x # xs) (Suc n) = nth_opt xs n"

record ParsedAction =
  action :: "Action option"
  sourceId :: string
  targetId :: "string option"

text \<open>\<^verbatim>\<open>Object.entries(...).find(([_, v]) => v === action)?.[0]\<close>.\<close>

definition action_of_representation :: "string option \<Rightarrow> Action option" where
  "action_of_representation code =
     map_option fst (find (\<lambda>(_, v). Some v = code) ACTION_REPRESENTATION_MAPPING)"

text \<open>\<^verbatim>\<open>parseAction\<close>: \<open>None\<close> is the \<^verbatim>\<open>null\<close> result. The three checks are in the order of
  the source; \<^verbatim>\<open>!sourceId\<close> holds for a missing and for an empty piece.\<close>

definition parseAction :: "string \<Rightarrow> ParsedAction option" where
  "parseAction actionString =
     (let parts = split_on CHR '':'' actionString;
          menuPrefix = nth_opt parts 0;
          sourceId' = nth_opt parts 1;
          action' = nth_opt parts 2;
          targetId' = nth_opt parts 3
      in if menuPrefix \<noteq> Some MENU_PREFIX then None
         else if (case action' of None \<Rightarrow> [] | Some a \<Rightarrow> a)
                   \<notin> set (map snd ACTION_REPRESENTATION_MAPPING) then None
         else (case sourceId' of
                 None \<Rightarrow> None
               | Some s \<Rightarrow>
                   if s = [] then None
                   else Some \<lparr>action = action_of_representation action',
                              sourceId = s, targetId = targetId'\<rparr>))"


section \<open>Values, errors and awaited results\<close>

text \<open>
  A JavaScript value, as far as loader arguments, loader data, menu state, the session
  and thrown values need one. Numbers are the integers; arrays and functions are left out.
  An object keeps its properties in insertion order; JavaScript lists keys that are array
  indices first, which the model does not do, and nothing below depends on the order of
  such keys.
\<close>

datatype jsval =
    Undefined
  | Null
  | Bool bool
  | Num int
  | Str string
  | Obj "(string \<times> jsval) list"

fun truthy :: "jsval \<Rightarrow> bool" where
  "truthy Undefined = False"
| "truthy Null = False"
| "truthy (Bool b) = b"
| "truthy (Num n) = (n \<noteq> 0)"
| "truthy (Str s) = (s \<noteq> [])"
| "truthy (Obj ps) = True"

text \<open>\<^verbatim>\<open>typeof v === "object" && v !== null\<close>.\<close>

fun is_object :: "jsval \<Rightarrow> bool" where
  "is_object (Obj ps) = True"
| "is_object v = False"

text \<open>\<^verbatim>\<open>a ?? b\<close>.\<close>

definition nullish :: "jsval \<Rightarrow> bool" where
  "nullish v = (v = Undefined \<or> v = Null)"

definition coalesce :: "jsval \<Rightarrow> jsval \<Rightarrow> jsval" where
  "coalesce a b = (if nullish a then b else a)"

text \<open>Decimal printing, for \<^verbatim>\<open>Number.prototype.toString\<close> on integers and for the index
  keys of a spread string.\<close>

definition digit_char :: "nat \<Rightarrow> char" where
  "digit_char n = char_of (48 + n)"

function string_of_nat :: "nat \<Rightarrow> string" where
  "string_of_nat n =
     (if n < 10 then [digit_char n]
      else string_of_nat (n div 10) @ [digit_char (n mod 10)])"
  by pat_completeness auto
termination
  by (relation "measure id") auto

declare string_of_nat.simps [simp del]

definition string_of_int :: "int \<Rightarrow> string" where
  "string_of_int i = (if i < 0 then CHR ''-'' # string_of_nat (nat (- i)) else string_of_nat (nat i))"

text \<open>The own enumerable properties that an object spread \<^verbatim>\<open>{...v}\<close> copies: those of an
  object, the indexed characters of a string, nothing for the other primitives.\<close>

fun own_props :: "jsval \<Rightarrow> (string \<times> jsval) list" where
  "own_props (Obj ps) = ps"
| "own_props (Str s) = zip (map string_of_nat [0..<length s]) (map (\<lambda>c. Str [c]) s)"
| "own_props v = []"

text \<open>Assigning properties one by one: an existing key keeps its place and takes the new
  value, a new key goes to the end.\<close>

definition assign_props :: "(string \<times> jsval) list \<Rightarrow> (string \<times> jsval) list \<Rightarrow> (string \<times> jsval) list" where
  "assign_props target src = fold (\<lambda>(k, v) ps. AList.update k v ps) src target"

text \<open>\<^verbatim>\<open>{ ...a, ...b }\<close>.\<close>

definition spread2 :: "jsval \<Rightarrow> jsval \<Rightarrow> jsval" where
  "spread2 a b = Obj (assign_props (assign_props [] (own_props a)) (own_props b))"

text \<open>Reading a property, \<^verbatim>\<open>v.k\<close> or \<^verbatim>\<open>v[k]\<close>: \<open>None\<close> stands for the \<^verbatim>\<open>TypeError\<close> that reading
  from \<^verbatim>\<open>undefined\<close> or \<^verbatim>\<open>null\<close> throws. A property that is missing reads as \<^verbatim>\<open>undefined\<close>; a
  string has its length and its indexed characters. What is inherited from a prototype
  (the methods of objects, strings and numbers) is not modelled.\<close>

fun read_prop :: "jsval \<Rightarrow> string \<Rightarrow> jsval option" where
  "read_prop Undefined k = None"
| "read_prop Null k = None"
| "read_prop (Bool b) k = Some Undefined"
| "read_prop (Num n) k = Some Undefined"
| "read_prop (Str s) k =
     Some (if k = ''length'' then Num (int (length s))
           else (case map_of (own_props (Str s)) k of None \<Rightarrow> Undefined | Some v \<Rightarrow> v))"
| "read_prop (Obj ps) k = Some (case map_of ps k of None \<Rightarrow> Undefined | Some v \<Rightarrow> v)"

text \<open>Writing a property, \<^verbatim>\<open>v.k = x\<close> or \<^verbatim>\<open>v[k] = x\<close>, in strict code (the body of a class is
  strict): \<open>None\<close> stands for the \<^verbatim>\<open>TypeError\<close> thrown when \<open>v\<close> is \<^verbatim>\<open>undefined\<close>, \<^verbatim>\<open>null\<close> or a
  primitive. On an object an existing key takes the new value, a new key goes to the end.\<close>

fun write_prop :: "jsval \<Rightarrow> string \<Rightarrow> jsval \<Rightarrow> jsval option" where
  "write_prop (Obj ps) k x = Some (Obj (AList.update k x ps))"
| "write_prop v k x = None"

text \<open>A thrown value is any value. \<^verbatim>\<open>new Error(text)\<close> is an object of which only the property
  \<^verbatim>\<open>message\<close> is read. The text of an engine's \<^verbatim>\<open>TypeError\<close> is not fixed by the language; one
  constant stands for it.\<close>

type_synonym js_error = jsval

definition Error_new :: "string \<Rightarrow> js_error" where
  "Error_new t = Obj [(''message'', Str t)]"

definition TypeError :: js_error where
  "TypeError = Error_new ''TypeError''"

text \<open>What awaiting a promise gives: its value, its rejection, or nothing because it never
  settles. For a promise raced against the timer, \<open>Never\<close> also stands for settling only
  after the timer has fired.\<close>

datatype 'a res = Ok 'a | Err js_error | Never

text \<open>\<^verbatim>\<open>await p; rest\<close> over an explicit state: a rejection or a promise that never settles
  ends the computation there, with the state as it is at that point.\<close>

definition await :: "('s \<Rightarrow> 'a res \<times> 's) \<Rightarrow> ('a \<Rightarrow> 's \<Rightarrow> 'b res \<times> 's) \<Rightarrow> 's \<Rightarrow> 'b res \<times> 's" where
  "await p rest s =
     (case p s of
        (Ok a, s') \<Rightarrow> rest a s'
      | (Err e, s') \<Rightarrow> (Err e, s')
      | (Never, s') \<Rightarrow> (Never, s'))"

definition resolve :: "'a \<Rightarrow> 's \<Rightarrow> 'a res \<times> 's" where
  "resolve a s = (Ok a, s)"

section \<open>Session, context and host capabilities\<close>

text \<open>
  \<^verbatim>\<open>ctx.session._menu\<close> is one object. The menu keeps in it the properties
  \<^verbatim>\<open>activeMessageId\<close>, \<^verbatim>\<open>activeMenuLoaderArgs\<close> and \<^verbatim>\<open>activeMenuLoaderData\<close> and, under the id of
  each menu, that menu's slot, an object with the property \<^verbatim>\<open>state\<close>. All of them are
  properties of the same object, so a menu whose id is one of the three names has its slot
  in that property. The field \<open>menu_session\<close> is the value of \<^verbatim>\<open>ctx.session._menu\<close>.
\<close>

record Session =
  menu_session :: jsval
  other_data :: jsval

text \<open>The calls made on the host, in order, with their payloads.\<close>

type_synonym ParseMode = string

datatype InlineKeyboardButton =
    TextButton string string
  | CopyTextButton string string
  | UrlButton string string

type_synonym keyboard = "InlineKeyboardButton list list"

text \<open>The text of a reply and of an answer is the value handed to the host: in the
  \<^verbatim>\<open>catch\<close> blocks it is whatever \<^verbatim>\<open>error.message\<close> holds.\<close>

datatype effect =
    Reply jsval "(ParseMode option \<times> keyboard) option"
  | EditMessageText string "ParseMode option" keyboard
  | AnswerCallbackQuery "jsval option" bool

record CallbackQuery =
  cq_data :: "string option"
  cq_message_id :: "int option"

text \<open>The context of one update. The three host methods are given by what they answer to
  the calls made so far, the current call being the last of the list: the id of the sent
  message or a rejection.\<close>

record Context =
  chat :: "int option"
  callbackQuery :: "CallbackQuery option"
  reply :: "effect list \<Rightarrow> js_error + int"
  editMessageText :: "effect list \<Rightarrow> js_error option"
  answerCallbackQuery :: "effect list \<Rightarrow> js_error option"

text \<open>\<^verbatim>\<open>ctx.chat?.id.toString() ?? ""\<close>.\<close>

definition chat_key :: "Context \<Rightarrow> string" where
  "chat_key ctx = (case chat ctx of None \<Rightarrow> [] | Some i \<Rightarrow> string_of_int i)"

section \<open>The layout builder\<close>

record 'cb ActionHandler =
  handler_action :: string
  callbackFn :: "'cb option"

datatype button_item =
    Button InlineKeyboardButton
  | ButtonRow "InlineKeyboardButton list"

text \<open>
  A build step. The function of a dynamic step is handed a fresh builder of the same menu
  id and fills it; here it is handed the menu id and returns the steps it has pushed,
  together with what awaiting it gives and the session as it leaves it. The type \<open>'cb\<close> is
  that of callback functions.
\<close>

datatype 'cb BuildStep =
    Static "button_item list" "'cb ActionHandler option"
  | Dynamic "Context \<Rightarrow> string \<Rightarrow> jsval \<Rightarrow> Session \<Rightarrow> ('cb BuildStep list) res \<times> Session"

record 'cb LayoutBuilder =
  menuId :: string
  steps :: "'cb BuildStep list"

definition LayoutBuilder_new :: "string \<Rightarrow> 'cb LayoutBuilder" where
  "LayoutBuilder_new mid = \<lparr>menuId = mid, steps = []\<rparr>"

text \<open>The five methods. \<open>callback\<close> takes the value \<^verbatim>\<open>nanoid(6)\<close> returned as an argument.\<close>

definition callback :: "string \<Rightarrow> 'cb option \<Rightarrow> string \<Rightarrow> 'cb LayoutBuilder \<Rightarrow> 'cb LayoutBuilder" where
  "callback txt fn nanoid6 b =
     (let act = buildAction Callback (menuId b) (Some nanoid6)
      in b\<lparr>steps := steps b @
           [Static [Button (TextButton txt act)]
                   (Some \<lparr>handler_action = act, callbackFn = fn\<rparr>)]\<rparr>)"

definition copy :: "string \<Rightarrow> string \<Rightarrow> 'cb LayoutBuilder \<Rightarrow> 'cb LayoutBuilder" where
  "copy txt content b = b\<lparr>steps := steps b @ [Static [Button (CopyTextButton txt content)] None]\<rparr>"

definition url :: "string \<Rightarrow> string \<Rightarrow> 'cb LayoutBuilder \<Rightarrow> 'cb LayoutBuilder" where
  "url txt u b = b\<lparr>steps := steps b @ [Static [Button (UrlButton txt u)] None]\<rparr>"

definition row :: "'cb LayoutBuilder \<Rightarrow> 'cb LayoutBuilder" where
  "row b = b\<lparr>steps := steps b @ [Static [ButtonRow []] None]\<rparr>"

definition dynamic ::
  "(Context \<Rightarrow> string \<Rightarrow> jsval \<Rightarrow> Session \<Rightarrow> ('cb BuildStep list) res \<times> Session)
     \<Rightarrow> 'cb LayoutBuilder \<Rightarrow> 'cb LayoutBuilder" where
  "dynamic dynamicFn b = b\<lparr>steps := steps b @ [Dynamic dynamicFn]\<rparr>"

text \<open>\<^verbatim>\<open>prepare\<close>: the handlers of the static steps that carry one.\<close>

fun static_handler :: "'cb BuildStep \<Rightarrow> 'cb ActionHandler option" where
  "static_handler (Static items h) = h"
| "static_handler (Dynamic f) = None"

definition prepare :: "'cb LayoutBuilder \<Rightarrow> 'cb ActionHandler list" where
  "prepare b = List.map_filter static_handler (steps b)"

record 'cb BuildResult =
  keyboard :: keyboard
  staticHandlers :: "'cb ActionHandler list"
  dynamicHandlers :: "'cb ActionHandler list"

text \<open>\<^verbatim>\<open>keyboard[keyboard.length - 1].push(...bs)\<close>. The keyboard of \<open>build\<close> starts as
  \<open>[[]]\<close> and only grows, so the empty case is never met.\<close>

definition push_last_row :: "InlineKeyboardButton list \<Rightarrow> keyboard \<Rightarrow> keyboard" where
  "push_last_row bs kb = (if kb = [] then kb else butlast kb @ [last kb @ bs])"

fun push_buttons :: "button_item list \<Rightarrow> keyboard \<Rightarrow> keyboard" where
  "push_buttons [] kb = kb"
| "push_buttons (Button b # items) kb = push_buttons items (push_last_row [b] kb)"
| "push_buttons (ButtonRow r # items) kb = push_buttons items (kb @ [r])"

definition static_step :: "button_item list \<Rightarrow> 'cb ActionHandler option \<Rightarrow> 'cb BuildResult \<Rightarrow> 'cb BuildResult" where
  "static_step items h acc =
     acc\<lparr>keyboard := push_buttons items (keyboard acc),
         staticHandlers := staticHandlers acc @ (case h of None \<Rightarrow> [] | Some x \<Rightarrow> [x])\<rparr>"

text \<open>What the loop does with the finished build of a dynamic step's builder.\<close>

definition dynamic_step :: "'cb BuildResult \<Rightarrow> 'cb BuildResult \<Rightarrow> 'cb BuildResult" where
  "dynamic_step dynamicBuild acc =
     acc\<lparr>dynamicHandlers :=
           dynamicHandlers acc @ staticHandlers dynamicBuild @ dynamicHandlers dynamicBuild,
         keyboard :=
           (case keyboard dynamicBuild of
              [] \<Rightarrow> keyboard acc
            | r # restRows \<Rightarrow> push_last_row r (keyboard acc) @ restRows)\<rparr>"

definition build_start :: "'cb BuildResult" where
  "build_start = \<lparr>keyboard = [[]], staticHandlers = [], dynamicHandlers = []\<rparr>"

definition build_finish :: "'cb BuildResult \<Rightarrow> 'cb BuildResult" where
  "build_finish acc = acc\<lparr>keyboard := filter (\<lambda>r. r \<noteq> []) (keyboard acc)\<rparr>"

type_synonym 'cb step_fn =
  "Context \<Rightarrow> string \<Rightarrow> jsval \<Rightarrow> 'cb BuildResult \<Rightarrow> Session \<Rightarrow> ('cb BuildResult) res \<times> Session"

text \<open>The \<^verbatim>\<open>for\<close> loop of \<open>build\<close> over the steps, each given by what it does to the
  accumulated result.\<close>

fun run_steps :: "'cb step_fn list \<Rightarrow> 'cb step_fn" where
  "run_steps [] ctx mid d acc = resolve acc"
| "run_steps (f # fs) ctx mid d acc = await (f ctx mid d acc) (run_steps fs ctx mid d)"

text \<open>One step of the loop. For a dynamic step: the function is awaited, then the build
  of the fresh builder that it has filled (the loop over the steps it returned, from the
  start value, and the final filter), then the result is merged. The recursion follows
  the nesting of the steps; \<open>map build_step\<close> under the function is how a primitive
  recursion reaches the steps that the function returns.\<close>

primrec build_step :: "'cb BuildStep \<Rightarrow> 'cb step_fn" where
  "build_step (Static items h) = (\<lambda>ctx mid d acc. resolve (static_step items h acc))"
| "build_step (Dynamic dynamicFn) = (\<lambda>ctx mid d acc.
     await (\<lambda>s. map_prod (map_res (map build_step)) id (dynamicFn ctx mid d s)) (\<lambda>fs.
     await (run_steps fs ctx mid d build_start) (\<lambda>nested.
     resolve (dynamic_step (build_finish nested) acc))))"

definition build :: "'cb LayoutBuilder \<Rightarrow> Context \<Rightarrow> jsval \<Rightarrow> Session \<Rightarrow> ('cb BuildResult) res \<times> Session" where
  "build b ctx d =
     await (run_steps (map build_step (steps b)) ctx (menuId b) d build_start) (\<lambda>acc.
     resolve (build_finish acc))"

section \<open>The menu\<close>

record MenuOptions =
  staleErrorText :: "string option"
  timeoutErrorText :: "string option"
  timeoutMs :: "nat option"

definition default_staleErrorText :: string where
  "default_staleErrorText = ''The menu is stalled''"

definition default_timeoutErrorText :: string where
  "default_timeoutErrorText = ''The action took too long to execute''"

definition default_timeoutMs :: nat where
  "default_timeoutMs = 10000"

record LoaderResult =
  lr_text :: string
  lr_data :: jsval
  lr_parseMode :: "ParseMode option"

text \<open>
  A menu object. The developer's functions (loader, \<^verbatim>\<open>onEnter\<close>, the functions of dynamic
  steps) read and write the session and are awaited; the state initializer takes no
  argument. A loader that resolves to \<^verbatim>\<open>null\<close> or \<^verbatim>\<open>undefined\<close> makes the destructuring in
  \<open>buildLayout\<close> throw; in the model it is a loader that rejects with that \<^verbatim>\<open>TypeError\<close>. The
  static handler map is a field set by the constructor. The map of dynamic
  handlers, the one field that is written later, is kept in the world below, under the
  menu's id (menu ids are taken to be distinct between menu objects).
\<close>

record 'cb Menu =
  menu_id :: string
  loaderFn :: "Context \<Rightarrow> jsval \<Rightarrow> Session \<Rightarrow> LoaderResult res \<times> Session"
  initStateFn :: "jsval res option"
  onEnterFn :: "(Context \<Rightarrow> Session \<Rightarrow> unit res \<times> Session) option"
  staticActionHandlersByAction :: "string \<rightharpoonup> 'cb ActionHandler"
  builder :: "'cb LayoutBuilder"
  options :: "MenuOptions option"

text \<open>\<^verbatim>\<open>handlers.forEach(h => map.set(h.action, h))\<close> on a new map: a later handler of
  the same action replaces an earlier one.\<close>

definition handler_map :: "'cb ActionHandler list \<Rightarrow> (string \<rightharpoonup> 'cb ActionHandler)" where
  "handler_map hs = fold (\<lambda>h m. m(handler_action h \<mapsto> h)) hs Map.empty"

text \<open>The constructor.\<close>

definition Menu_new ::
  "string \<Rightarrow> (Context \<Rightarrow> jsval \<Rightarrow> Session \<Rightarrow> LoaderResult res \<times> Session) \<Rightarrow> 'cb LayoutBuilder
     \<Rightarrow> jsval res option \<Rightarrow> MenuOptions option
     \<Rightarrow> (Context \<Rightarrow> Session \<Rightarrow> unit res \<times> Session) option \<Rightarrow> 'cb Menu" where
  "Menu_new i loader b st opts onEnter =
     \<lparr>menu_id = i, loaderFn = loader, initStateFn = st, onEnterFn = onEnter,
      staticActionHandlersByAction = handler_map (prepare b),
      builder = b, options = opts\<rparr>"

text \<open>\<^verbatim>\<open>createMenu\<close>: \<open>i\<close> is the value \<^verbatim>\<open>nanoid(6)\<close> returned, \<open>layout\<close> the developer's
  calls on the builder.\<close>

definition createMenu ::
  "string \<Rightarrow> (Context \<Rightarrow> jsval \<Rightarrow> Session \<Rightarrow> LoaderResult res \<times> Session)
     \<Rightarrow> ('cb LayoutBuilder \<Rightarrow> 'cb LayoutBuilder)
     \<Rightarrow> jsval res option \<Rightarrow> MenuOptions option
     \<Rightarrow> (Context \<Rightarrow> Session \<Rightarrow> unit res \<times> Session) option \<Rightarrow> 'cb Menu" where
  "createMenu i loader layout st opts onEnter =
     Menu_new i loader (layout (LayoutBuilder_new i)) st opts onEnter"

definition stale_text :: "'cb Menu \<Rightarrow> string" where
  "stale_text m =
     (case options m of
        None \<Rightarrow> default_staleErrorText
      | Some opts \<Rightarrow> (case staleErrorText opts of None \<Rightarrow> default_staleErrorText | Some t \<Rightarrow> t))"

definition timeout_text :: "'cb Menu \<Rightarrow> string" where
  "timeout_text m =
     (case options m of
        None \<Rightarrow> default_timeoutErrorText
      | Some opts \<Rightarrow> (case timeoutErrorText opts of None \<Rightarrow> default_timeoutErrorText | Some t \<Rightarrow> t))"

text \<open>\<^verbatim>\<open>Promise.race([p, timer])\<close>: when \<open>p\<close> has not settled as the timer fires, the race
  rejects with \<^verbatim>\<open>new Error(timeoutErrorText)\<close>.\<close>

definition race_timeout :: "'cb Menu \<Rightarrow> ('s \<Rightarrow> 'a res \<times> 's) \<Rightarrow> 's \<Rightarrow> 'a res \<times> 's" where
  "race_timeout m p s =
     (case p s of
        (Never, s') \<Rightarrow> (Err (Error_new (timeout_text m)), s')
      | settled \<Rightarrow> settled)"

text \<open>The mutable state: the session of the update's chat, the dynamic handler maps of
  all menus (menu id, then chat key, then action), and the host calls made.\<close>

record 'cb World =
  session :: Session
  dynamicActionHandlersByActionByChatId :: "string \<Rightarrow> (string \<rightharpoonup> (string \<rightharpoonup> 'cb ActionHandler))"
  log :: "effect list"

definition on_session :: "(Session \<Rightarrow> 'a res \<times> Session) \<Rightarrow> 'cb World \<Rightarrow> 'a res \<times> 'cb World" where
  "on_session f w = (case f (session w) of (r, s') \<Rightarrow> (r, w\<lparr>session := s'\<rparr>))"

text \<open>\<^verbatim>\<open>initContext\<close>: \<^verbatim>\<open>_menu ??= {}\<close>, then \<^verbatim>\<open>_menu[id] ??= {}\<close>. The second assignment
  throws when \<^verbatim>\<open>_menu\<close> is a primitive. The object \<^verbatim>\<open>ctx.menu\<close>, which only carries the actions
  and the state accessor to the developer's functions, has no counterpart in the model.\<close>

definition initContext :: "'cb Menu \<Rightarrow> Session \<Rightarrow> unit res \<times> Session" where
  "initContext m s =
     (let menu = coalesce (menu_session s) (Obj []);
          s' = s\<lparr>menu_session := menu\<rparr>
      in case read_prop menu (menu_id m) of
           None \<Rightarrow> (Err TypeError, s')
         | Some slot \<Rightarrow>
             if nullish slot then
               (case write_prop menu (menu_id m) (Obj []) of
                  None \<Rightarrow> (Err TypeError, s')
                | Some menu' \<Rightarrow> (Ok (), s\<lparr>menu_session := menu'\<rparr>))
             else (Ok (), s'))"

text \<open>\<^verbatim>\<open>getState\<close>. Reading \<^verbatim>\<open>ctx.session._menu[this.id].state\<close> throws a \<^verbatim>\<open>TypeError\<close> when
  \<^verbatim>\<open>_menu\<close> or the slot is \<^verbatim>\<open>undefined\<close> or \<^verbatim>\<open>null\<close>; writing it throws when the slot is a
  primitive. Writing the slot's property is an update of the slot inside \<^verbatim>\<open>_menu\<close>. The
  result tells whether a state accessor is returned.\<close>

definition getState :: "'cb Menu \<Rightarrow> Session \<Rightarrow> bool res \<times> Session" where
  "getState m s =
     (case read_prop (menu_session s) (menu_id m) of
        None \<Rightarrow> (Err TypeError, s)
      | Some slot \<Rightarrow>
          (case read_prop slot ''state'' of
             None \<Rightarrow> (Err TypeError, s)
           | Some st \<Rightarrow>
               if \<not> truthy st then
                 (case initStateFn m of
                    None \<Rightarrow> (Ok False, s)
                  | Some (Ok v) \<Rightarrow>
                      (case write_prop slot ''state'' v of
                         None \<Rightarrow> (Err TypeError, s)
                       | Some slot' \<Rightarrow>
                           (case write_prop (menu_session s) (menu_id m) slot' of
                              None \<Rightarrow> (Err TypeError, s)
                            | Some menu' \<Rightarrow> (Ok True, s\<lparr>menu_session := menu'\<rparr>)))
                  | Some (Err e) \<Rightarrow> (Err e, s)
                  | Some Never \<Rightarrow> (Never, s))
               else (Ok True, s)))"

text \<open>The two writes \<^verbatim>\<open>ctx.session._menu.activeMenuLoaderArgs = args\<close> and
  \<^verbatim>\<open>...activeMenuLoaderData = data\<close>.\<close>

definition store_loader :: "jsval \<Rightarrow> jsval \<Rightarrow> Session \<Rightarrow> unit res \<times> Session" where
  "store_loader args d s =
     (case write_prop (menu_session s) ''activeMenuLoaderArgs'' args of
        None \<Rightarrow> (Err TypeError, s)
      | Some menu' \<Rightarrow>
          (case write_prop menu' ''activeMenuLoaderData'' d of
             None \<Rightarrow> (Err TypeError, s\<lparr>menu_session := menu'\<rparr>)
           | Some menu'' \<Rightarrow> (Ok (), s\<lparr>menu_session := menu''\<rparr>)))"

definition set_dynamic_handlers ::
  "'cb Menu \<Rightarrow> Context \<Rightarrow> 'cb ActionHandler list \<Rightarrow> 'cb World \<Rightarrow> unit res \<times> 'cb World" where
  "set_dynamic_handlers m ctx hs w =
     (Ok (),
      w\<lparr>dynamicActionHandlersByActionByChatId :=
          (dynamicActionHandlersByActionByChatId w)
            (menu_id m := (dynamicActionHandlersByActionByChatId w (menu_id m))
                            (chat_key ctx \<mapsto> handler_map hs))\<rparr>)"

record Layout =
  layout_text :: string
  layout_keyboard :: keyboard
  layout_parseMode :: "ParseMode option"

definition buildLayout :: "'cb Menu \<Rightarrow> Context \<Rightarrow> jsval \<Rightarrow> 'cb World \<Rightarrow> Layout res \<times> 'cb World" where
  "buildLayout m ctx args =
     await (on_session (initContext m)) (\<lambda>_.
     await (on_session (getState m)) (\<lambda>_.
     await (on_session (case onEnterFn m of None \<Rightarrow> resolve () | Some f \<Rightarrow> f ctx)) (\<lambda>_.
     await (on_session (race_timeout m (loaderFn m ctx args))) (\<lambda>r.
     await (on_session (build (builder m) ctx (lr_data r))) (\<lambda>b.
     await (set_dynamic_handlers m ctx (dynamicHandlers b)) (\<lambda>_.
     await (on_session (store_loader args (lr_data r))) (\<lambda>_.
     resolve \<lparr>layout_text = lr_text r, layout_keyboard = keyboard b,
              layout_parseMode = lr_parseMode r\<rparr>)))))))"

text \<open>Host calls: each is logged, then answered by the context.\<close>

definition call_reply ::
  "Context \<Rightarrow> jsval \<Rightarrow> (ParseMode option \<times> keyboard) option \<Rightarrow> 'cb World \<Rightarrow> int res \<times> 'cb World" where
  "call_reply ctx txt other w =
     (let l = log w @ [Reply txt other]
      in (case reply ctx l of Inl e \<Rightarrow> Err e | Inr i \<Rightarrow> Ok i, w\<lparr>log := l\<rparr>))"

definition call_editMessageText ::
  "Context \<Rightarrow> string \<Rightarrow> ParseMode option \<Rightarrow> keyboard \<Rightarrow> 'cb World \<Rightarrow> unit res \<times> 'cb World" where
  "call_editMessageText ctx txt pm kb w =
     (let l = log w @ [EditMessageText txt pm kb]
      in (case editMessageText ctx l of Some e \<Rightarrow> Err e | None \<Rightarrow> Ok (), w\<lparr>log := l\<rparr>))"

text \<open>\<^verbatim>\<open>ctx.answerCallbackQuery(...).catch(() => null)\<close>: a rejection is dropped.\<close>

definition call_answerCallbackQuery_caught ::
  "Context \<Rightarrow> jsval option \<Rightarrow> bool \<Rightarrow> 'cb World \<Rightarrow> unit res \<times> 'cb World" where
  "call_answerCallbackQuery_caught ctx txt alert w =
     (let l = log w @ [AnswerCallbackQuery txt alert]
      in (case answerCallbackQuery ctx l of Some e \<Rightarrow> Ok () | None \<Rightarrow> Ok (), w\<lparr>log := l\<rparr>))"

definition render :: "'cb Menu \<Rightarrow> Context \<Rightarrow> jsval \<Rightarrow> 'cb World \<Rightarrow> unit res \<times> 'cb World" where
  "render m ctx args =
     await (buildLayout m ctx args) (\<lambda>l.
     call_editMessageText ctx (layout_text l) (layout_parseMode l) (layout_keyboard l))"

text \<open>\<^verbatim>\<open>ctx.session._menu.activeMessageId = message_id\<close>.\<close>

definition set_activeMessageId :: "int \<Rightarrow> Session \<Rightarrow> unit res \<times> Session" where
  "set_activeMessageId i s =
     (case write_prop (menu_session s) ''activeMessageId'' (Num i) of
        None \<Rightarrow> (Err TypeError, s)
      | Some menu' \<Rightarrow> (Ok (), s\<lparr>menu_session := menu'\<rparr>))"

definition send_try :: "'cb Menu \<Rightarrow> Context \<Rightarrow> jsval \<Rightarrow> 'cb World \<Rightarrow> unit res \<times> 'cb World" where
  "send_try m ctx args =
     await (buildLayout m ctx args) (\<lambda>l.
     await (call_reply ctx (Str (layout_text l)) (Some (layout_parseMode l, layout_keyboard l))) (\<lambda>i.
     on_session (set_activeMessageId i)))"

text \<open>\<^verbatim>\<open>send\<close>: the \<^verbatim>\<open>try\<close> body, and \<^verbatim>\<open>ctx.reply(error.message)\<close> in the \<^verbatim>\<open>catch\<close>. Reading
  \<^verbatim>\<open>error.message\<close> of a thrown \<^verbatim>\<open>null\<close> or \<^verbatim>\<open>undefined\<close> throws inside the \<^verbatim>\<open>catch\<close>, before the
  reply is made.\<close>

definition send :: "'cb Menu \<Rightarrow> Context \<Rightarrow> jsval \<Rightarrow> 'cb World \<Rightarrow> unit res \<times> 'cb World" where
  "send m ctx args w =
     (case send_try m ctx args w of
        (Err e, w') \<Rightarrow>
          (case read_prop e ''message'' of
             None \<Rightarrow> (Err TypeError, w')
           | Some msg \<Rightarrow> await (call_reply ctx msg None) (\<lambda>_. resolve ()) w')
      | settled \<Rightarrow> settled)"

section \<open>Handling a callback query\<close>

text \<open>\<^verbatim>\<open>refresh\<close>'s argument for \<open>render\<close>.\<close>

definition refresh_args :: "jsval \<Rightarrow> jsval \<Rightarrow> jsval" where
  "refresh_args sessionArgs args =
     (if is_object sessionArgs then spread2 sessionArgs (coalesce args (Obj []))
      else coalesce args sessionArgs)"

record 'cb MenuCallbackActions =
  navigate :: "'cb Menu \<Rightarrow> jsval \<Rightarrow> 'cb World \<Rightarrow> unit res \<times> 'cb World"
  refresh :: "jsval \<Rightarrow> 'cb World \<Rightarrow> unit res \<times> 'cb World"

definition getCallbackActions :: "'cb Menu \<Rightarrow> Context \<Rightarrow> 'cb MenuCallbackActions" where
  "getCallbackActions m ctx =
     \<lparr>navigate = (\<lambda>menu args. render menu ctx args),
      refresh = (\<lambda>args w.
        (case read_prop (menu_session (session w)) ''activeMenuLoaderArgs'' of
           None \<Rightarrow> (Err TypeError, w)
         | Some sessionArgs \<Rightarrow> render m ctx (refresh_args sessionArgs args) w))\<rparr>"

text \<open>\<^verbatim>\<open>ctx.callbackQuery?.data ?? ""\<close> and \<^verbatim>\<open>ctx.callbackQuery?.message?.message_id\<close>, a
  number or \<^verbatim>\<open>undefined\<close>.\<close>

definition callback_data :: "Context \<Rightarrow> string" where
  "callback_data ctx =
     (case callbackQuery ctx of
        None \<Rightarrow> []
      | Some q \<Rightarrow> (case cq_data q of None \<Rightarrow> [] | Some d \<Rightarrow> d))"

definition callback_message_id :: "Context \<Rightarrow> jsval" where
  "callback_message_id ctx =
     (case callbackQuery ctx of
        None \<Rightarrow> Undefined
      | Some q \<Rightarrow> (case cq_message_id q of None \<Rightarrow> Undefined | Some i \<Rightarrow> Num i))"

text \<open>\<^verbatim>\<open>ctx.session._menu?.activeMessageId\<close>.\<close>

definition active_message :: "Session \<Rightarrow> jsval" where
  "active_message s =
     (if nullish (menu_session s) then Undefined
      else (case read_prop (menu_session s) ''activeMessageId'' of
              None \<Rightarrow> Undefined
            | Some v \<Rightarrow> v))"

text \<open>The handler of the pressed button: the static map first, then the dynamic map of the
  chat.\<close>

definition find_handler :: "'cb Menu \<Rightarrow> Context \<Rightarrow> 'cb World \<Rightarrow> 'cb ActionHandler option" where
  "find_handler m ctx w =
     (case staticActionHandlersByAction m (callback_data ctx) of
        Some h \<Rightarrow> Some h
      | None \<Rightarrow>
          (case dynamicActionHandlersByActionByChatId w (menu_id m) (chat_key ctx) of
             None \<Rightarrow> None
           | Some dm \<Rightarrow> dm (callback_data ctx)))"

text \<open>The body of the \<^verbatim>\<open>try\<close>. \<open>run\<close> applies a callback function to the context, the
  actions put on \<^verbatim>\<open>ctx.menu\<close> and the loader data, and says what awaiting it gives.\<close>

definition handle_try ::
  "('cb \<Rightarrow> Context \<Rightarrow> 'cb MenuCallbackActions \<Rightarrow> jsval \<Rightarrow> 'cb World \<Rightarrow> unit res \<times> 'cb World)
     \<Rightarrow> 'cb Menu \<Rightarrow> Context \<Rightarrow> Action option \<Rightarrow> 'cb ActionHandler
     \<Rightarrow> 'cb World \<Rightarrow> unit res \<times> 'cb World" where
  "handle_try run m ctx act h =
     await
       (case callbackFn h of
          None \<Rightarrow> resolve ()
        | Some fn \<Rightarrow>
            if act = Some Callback then
              await (on_session (getState m)) (\<lambda>_ w.
                (case read_prop (menu_session (session w)) ''activeMenuLoaderData'' of
                   None \<Rightarrow> (Err TypeError, w)
                 | Some d \<Rightarrow> race_timeout m (run fn ctx (getCallbackActions m ctx) d) w))
            else resolve ())
       (\<lambda>_. call_answerCallbackQuery_caught ctx None False)"

text \<open>The middleware. \<open>next\<close> is the rest of the host's chain. The message id of the
  update is a number or \<^verbatim>\<open>undefined\<close>, never an object, so \<^verbatim>\<open>!==\<close> against the session's value is
  inequality of the two values. In the \<^verbatim>\<open>catch\<close>, the argument
  \<^verbatim>\<open>error.message ?? "Unknown error"\<close> is evaluated before the host is called: for a thrown
  \<^verbatim>\<open>null\<close> or \<^verbatim>\<open>undefined\<close> the read throws, and that \<^verbatim>\<open>TypeError\<close> leaves the \<^verbatim>\<open>catch\<close>.\<close>

definition middleware ::
  "('cb \<Rightarrow> Context \<Rightarrow> 'cb MenuCallbackActions \<Rightarrow> jsval \<Rightarrow> 'cb World \<Rightarrow> unit res \<times> 'cb World)
     \<Rightarrow> 'cb Menu \<Rightarrow> Context \<Rightarrow> ('cb World \<Rightarrow> unit res \<times> 'cb World)
     \<Rightarrow> 'cb World \<Rightarrow> unit res \<times> 'cb World" where
  "middleware run m ctx next w =
     (let actionHandler = find_handler m ctx w;
          parsed = parseAction (case actionHandler of None \<Rightarrow> [] | Some h \<Rightarrow> handler_action h);
          act = (case parsed of None \<Rightarrow> None | Some p \<Rightarrow> action p);
          src = (case parsed of None \<Rightarrow> None | Some p \<Rightarrow> Some (sourceId p))
      in case actionHandler of
           None \<Rightarrow> next w
         | Some h \<Rightarrow>
             if act = None \<or> src \<noteq> Some (menu_id m) then next w
             else if callback_message_id ctx \<noteq> active_message (session w) then
               call_answerCallbackQuery_caught ctx (Some (Str (stale_text m))) True w
             else
               (case handle_try run m ctx act h w of
                  (Err e, w') \<Rightarrow>
                    (case read_prop e ''message'' of
                       None \<Rightarrow> (Err TypeError, w')
                     | Some msg \<Rightarrow>
                         (case call_answerCallbackQuery_caught ctx
                                 (Some (coalesce msg (Str ''Unknown error''))) True w' of
                            (_, w'') \<Rightarrow> (Err e, w'')))
                | settled \<Rightarrow> settled))"

section \<open>Functions of the developer that leave the active message alone\<close>

text \<open>The session is an untyped bag that the developer's functions can write anywhere.
  What the menu itself does with \<^verbatim>\<open>activeMessageId\<close> is stated for functions that do not
  write it: the loader, \<^verbatim>\<open>onEnter\<close>, and the functions of the dynamic steps at every depth.\<close>

definition keeps_active :: "(Session \<Rightarrow> 'a res \<times> Session) \<Rightarrow> bool" where
  "keeps_active f = (\<forall>s. active_message (snd (f s)) = active_message s)"

inductive steps_keep_active :: "Context \<Rightarrow> 'cb BuildStep list \<Rightarrow> bool" for ctx :: Context where
  no_steps: "steps_keep_active ctx []"
| static_first: "steps_keep_active ctx ss \<Longrightarrow> steps_keep_active ctx (Static items h # ss)"
| dynamic_first:
    "(\<And>mid d. keeps_active (f ctx mid d)) \<Longrightarrow>
     (\<And>mid d s nested. fst (f ctx mid d s) = Ok nested \<Longrightarrow> steps_keep_active ctx nested) \<Longrightarrow>
     steps_keep_active ctx ss \<Longrightarrow>
     steps_keep_active ctx (Dynamic f # ss)"

definition hooks_keep_active :: "'cb Menu \<Rightarrow> Context \<Rightarrow> bool" where
  "hooks_keep_active m ctx =
     ((\<forall>args. keeps_active (loaderFn m ctx args))
      \<and> (\<forall>f. onEnterFn m = Some f \<longrightarrow> keeps_active (f ctx))
      \<and> steps_keep_active ctx (steps (builder m)))"

section \<open>Example data\<close>

text \<open>A session that has not seen a menu yet, and an update's context: the chat, the
  callback data, the message the pressed button sits on. The host numbers the messages it
  sends by the calls made so far, accepts every edit and rejects every answer to a
  callback query.\<close>

definition demo_session :: Session where
  "demo_session = \<lparr>menu_session = Undefined, other_data = Undefined\<rparr>"

definition demo_ctx :: "int option \<Rightarrow> string \<Rightarrow> int option \<Rightarrow> Context" where
  "demo_ctx c tok mid =
     \<lparr>chat = c,
      callbackQuery = Some \<lparr>cq_data = Some tok, cq_message_id = mid\<rparr>,
      reply = (\<lambda>l. Inr (int (length l))),
      editMessageText = (\<lambda>l. None),
      answerCallbackQuery = (\<lambda>l. Some (Error_new ''query is too old''))\<rparr>"

text \<open>Callback functions are numbered. A dynamic section with one button for truthy
  loader data and two buttons otherwise.\<close>

definition demo_dynamic :: "Context \<Rightarrow> string \<Rightarrow> jsval \<Rightarrow> Session \<Rightarrow> (nat BuildStep list) res \<times> Session" where
  "demo_dynamic ctx mid d s =
     (if truthy d then (Ok (steps (callback ''Z'' (Some 0) ''zzzzzz'' (LayoutBuilder_new mid))), s)
      else (Ok (steps (callback ''Y'' (Some 1) ''yyyyyy''
                        (callback ''X'' (Some 3) ''xxxxxx'' (LayoutBuilder_new mid)))), s))"

text \<open>Two menus. Callback functions are numbers, run by \<open>demo_run\<close>: number 0 returns,
  1 throws, 2 never settles, 3 refreshes with \<^verbatim>\<open>{resetCount: true}\<close>, the others navigate to
  the second menu. The loader hands its arguments on as data.\<close>

definition demo_loader :: "Context \<Rightarrow> jsval \<Rightarrow> Session \<Rightarrow> LoaderResult res \<times> Session" where
  "demo_loader ctx args s = (Ok \<lparr>lr_text = ''Menu'', lr_data = args, lr_parseMode = None\<rparr>, s)"

definition demo_layout :: "nat LayoutBuilder \<Rightarrow> nat LayoutBuilder" where
  "demo_layout b =
     dynamic demo_dynamic
       (callback ''D'' (Some 4) ''dddddd''
         (callback ''C'' (Some 2) ''cccccc''
           (callback ''B'' (Some 3) ''bbbbbb''
             (row (callback ''A'' (Some 1) ''aaaaaa'' b)))))"

definition demo_menu :: "nat Menu" where
  "demo_menu = createMenu ''abc123'' demo_loader demo_layout None None None"

definition other_menu :: "nat Menu" where
  "other_menu =
     createMenu ''xyz789'' demo_loader (callback ''Back'' (Some 0) ''eeeeee'')
       (Some (Ok (Obj [(''count'', Num 0)])))
       (Some \<lparr>staleErrorText = Some ''Too old'', timeoutErrorText = Some ''Too slow'',
              timeoutMs = Some 50\<rparr>)
       None"

definition demo_run ::
  "nat \<Rightarrow> Context \<Rightarrow> nat MenuCallbackActions \<Rightarrow> jsval \<Rightarrow> nat World \<Rightarrow> unit res \<times> nat World" where
  "demo_run n ctx actions d w =
     (if n = 0 then (Ok (), w)
      else if n = 1 then (Err (Error_new ''boom''), w)
      else if n = 2 then (Never, w)
      else if n = 3 then refresh actions (Obj [(''resetCount'', Bool True)]) w
      else navigate actions other_menu Undefined w)"

text \<open>A menu constructed by hand, with the name of a property of \<^verbatim>\<open>_menu\<close> as its id and no
  buttons.\<close>

definition clash_menu :: "nat Menu" where
  "clash_menu =
     Menu_new ''activeMessageId'' demo_loader (LayoutBuilder_new ''activeMessageId'') None None None"

text \<open>The world before any menu was sent, and one in which message 1 is the active one.\<close>

definition demo_world :: "nat World" where
  "demo_world =
     \<lparr>session = demo_session, dynamicActionHandlersByActionByChatId = (\<lambda>i. Map.empty), log = []\<rparr>"

definition active_world :: "nat World" where
  "active_world =
     \<lparr>session =
        \<lparr>menu_session =
           Obj [(''abc123'', Obj []),
                (''activeMenuLoaderArgs'', Obj [(''resetCount'', Bool False), (''other'', Str ''x'')]),
                (''activeMenuLoaderData'', Undefined),
                (''activeMessageId'', Num 1)],
         other_data = Undefined\<rparr>,
      dynamicActionHandlersByActionByChatId = (\<lambda>i. Map.empty),
      log = []\<rparr>"

text \<open>A menu whose loader throws, a menu whose loader never settles, and a context whose
  host rejects every call.\<close>

definition failing_menu :: "nat Menu" where
  "failing_menu =
     createMenu ''fail00'' (\<lambda>ctx args s. (Err (Error_new ''loader failed''), s)) (\<lambda>b. b)
       None None None"

definition stuck_menu :: "nat Menu" where
  "stuck_menu =
     createMenu ''slow00'' (\<lambda>ctx args s. (Never, s)) (\<lambda>b. b) None
       (Some \<lparr>staleErrorText = None, timeoutErrorText = Some ''Too slow'', timeoutMs = Some 50\<rparr>)
       None"

definition offline_ctx :: Context where
  "offline_ctx =
     \<lparr>chat = Some 42, callbackQuery = None,
      reply = (\<lambda>l. Inl (Error_new ''Forbidden'')),
      editMessageText = (\<lambda>l. Some (Error_new ''Forbidden'')),
      answerCallbackQuery = (\<lambda>l. Some (Error_new ''Forbidden''))\<rparr>"

section \<open>Properties of the token codec\<close>

subsection \<open>Splitting\<close>


lemma split_on_no_sep: "c \<notin> set s \<Longrightarrow> split_on c s = [s]"
  by (induction s) auto

lemma split_on_append_sep:
  "c \<notin> set a \<Longrightarrow> split_on c (a @ c # b) = a # split_on c b"
  by (induction a) auto

lemma colon_notin_prefix: "CHR '':'' \<notin> set MENU_PREFIX"
  by (simp add: MENU_PREFIX_def)

lemma colon_notin_representation: "CHR '':'' \<notin> set (representation a)"
  by (cases a) (simp add: representation_def ACTION_REPRESENTATION_MAPPING_def)

lemma action_of_representation_inverse:
  "action_of_representation (Some (representation a)) = Some a"
  by (cases a)
     (simp add: action_of_representation_def representation_def
        ACTION_REPRESENTATION_MAPPING_def)

lemma representation_known:
  "representation a \<in> set (map snd ACTION_REPRESENTATION_MAPPING)"
  by (cases a) (simp add: representation_def ACTION_REPRESENTATION_MAPPING_def)

lemma split_buildAction_None:
  assumes "CHR '':'' \<notin> set sid"
  shows "split_on CHR '':'' (buildAction a sid None) = [MENU_PREFIX, sid, representation a]"
proof -
  have "buildAction a sid None = MENU_PREFIX @ CHR '':'' # (sid @ CHR '':'' # representation a)"
    by (simp add: buildAction_def)
  then show ?thesis
    using assms
    by (simp add: split_on_append_sep split_on_no_sep colon_notin_prefix
          colon_notin_representation)
qed

lemma split_buildAction_Some:
  assumes "CHR '':'' \<notin> set sid" and "CHR '':'' \<notin> set tid" and "tid \<noteq> []"
  shows "split_on CHR '':'' (buildAction a sid (Some tid))
           = [MENU_PREFIX, sid, representation a, tid]"
proof -
  have "buildAction a sid (Some tid)
          = MENU_PREFIX @ CHR '':'' # (sid @ CHR '':'' # (representation a @ CHR '':'' # tid))"
    using assms(3) by (simp add: buildAction_def)
  then show ?thesis
    using assms
    by (simp add: split_on_append_sep split_on_no_sep colon_notin_prefix
          colon_notin_representation)
qed

lemma parseAction_buildAction:
  assumes "sid \<noteq> []" and "CHR '':'' \<notin> set sid"
    and "\<forall>t. tid = Some t \<longrightarrow> t \<noteq> [] \<and> CHR '':'' \<notin> set t"
  shows "parseAction (buildAction a sid tid)
           = Some \<lparr>action = Some a, sourceId = sid, targetId = tid\<rparr>"
proof (cases tid)
  case None
  then show ?thesis
    using assms
    by (simp add: parseAction_def split_buildAction_None representation_known [simplified]
          action_of_representation_inverse Let_def eval_nat_numeral)
next
  case (Some t)
  then have "t \<noteq> []" and "CHR '':'' \<notin> set t"
    using assms(3) by auto
  then show ?thesis
    using assms Some
    by (simp add: parseAction_def split_buildAction_Some representation_known [simplified]
          action_of_representation_inverse Let_def eval_nat_numeral)
qed



subsection \<open>Which strings decode\<close>




section \<open>Properties of awaiting and of the builder\<close>

lemma build_step_Dynamic:
  "build_step (Dynamic dynamicFn) ctx mid d acc =
     await (dynamicFn ctx mid d) (\<lambda>nested.
     await (build \<lparr>menuId = mid, steps = nested\<rparr> ctx d) (\<lambda>dynamicBuild.
     resolve (dynamic_step dynamicBuild acc)))"
  by (rule ext)
     (auto simp: await_def resolve_def build_def split: prod.splits res.splits)

lemma staticHandlers_build_step:
  "build_step st ctx mid d acc s = (Ok acc', s') \<Longrightarrow>
     staticHandlers acc' = staticHandlers acc @ (case static_handler st of None \<Rightarrow> [] | Some h \<Rightarrow> [h])"
proof (cases st)
  case (Static items h)
  assume "build_step st ctx mid d acc s = (Ok acc', s')"
  with Static show ?thesis by (auto simp: resolve_def static_step_def)
next
  case (Dynamic f)
  assume a: "build_step st ctx mid d acc s = (Ok acc', s')"
  with Dynamic show ?thesis
    unfolding Dynamic build_step_Dynamic
    by (auto simp: await_def resolve_def dynamic_step_def split: prod.splits res.splits)
qed

lemma staticHandlers_run_steps:
  "run_steps (map build_step ss) ctx mid d acc s = (Ok acc', s') \<Longrightarrow>
     staticHandlers acc' = staticHandlers acc @ List.map_filter static_handler ss"
proof (induction ss arbitrary: acc s)
  case Nil
  then show ?case by (simp add: resolve_def List.map_filter_simps)
next
  case (Cons st ss)
  from Cons.prems obtain acc1 s1 where
    st: "build_step st ctx mid d acc s = (Ok acc1, s1)"
    and rest: "run_steps (map build_step ss) ctx mid d acc1 s1 = (Ok acc', s')"
    by (auto simp: await_def split: prod.splits res.splits)
  from Cons.IH [OF rest] staticHandlers_build_step [OF st]
  show ?case by (cases "static_handler st") (simp_all add: List.map_filter_simps)
qed

lemma staticHandlers_build:
  "build b ctx d s = (Ok r, s') \<Longrightarrow> staticHandlers r = prepare b"
  by (auto simp: build_def await_def resolve_def build_finish_def build_start_def prepare_def
        split: prod.splits res.splits dest!: staticHandlers_run_steps)


lemma build_static_only:
  "build \<lparr>menuId = mid, steps = [Static [Button x] hx, Static [Button y] hy]\<rparr> ctx d s
     = (Ok \<lparr>keyboard = [[x, y]],
            staticHandlers = (case hx of None \<Rightarrow> [] | Some h \<Rightarrow> [h]) @ (case hy of None \<Rightarrow> [] | Some h \<Rightarrow> [h]),
            dynamicHandlers = []\<rparr>, s)"
  by (simp add: build_def await_def resolve_def static_step_def build_start_def
        build_finish_def push_last_row_def)

lemma build_static_then_dynamic:
  assumes "dynamicFn ctx mid d s = (Ok nested, s1)"
    and "build \<lparr>menuId = mid, steps = nested\<rparr> ctx d s1 = (Ok nb, s2)"
  shows "build \<lparr>menuId = mid, steps = [Static [Button a] ha, Dynamic dynamicFn]\<rparr> ctx d s
     = (Ok \<lparr>keyboard = filter (\<lambda>r. r \<noteq> [])
                          (case keyboard nb of [] \<Rightarrow> [[a]] | r # restRows \<Rightarrow> (a # r) # restRows),
            staticHandlers = (case ha of None \<Rightarrow> [] | Some h \<Rightarrow> [h]),
            dynamicHandlers = staticHandlers nb @ dynamicHandlers nb\<rparr>, s2)"
proof -
  from assms(2) obtain acc0 where
    acc0: "run_steps (map build_step nested) ctx mid d build_start s1 = (Ok acc0, s2)"
    and nb: "nb = build_finish acc0"
    by (auto simp: build_def await_def resolve_def split: prod.splits res.splits)
  show ?thesis
    using assms(1) acc0
    by (simp add: build_def await_def resolve_def nb)
       (simp add: build_finish_def dynamic_step_def static_step_def build_start_def
          push_last_row_def split: list.splits)
qed

section \<open>Properties of reading and writing properties\<close>

lemma read_prop_None_iff: "(read_prop v k = None) = nullish v"
  by (cases v) (simp_all add: nullish_def)

lemma write_prop_SomeD:
  "write_prop v k x = Some v' \<Longrightarrow> \<exists>ps. v = Obj ps \<and> v' = Obj (AList.update k x ps)"
  by (cases v) simp_all

lemma read_write_same: "write_prop v k x = Some v' \<Longrightarrow> read_prop v' k = Some x"
  by (auto dest!: write_prop_SomeD simp: update_conv')

lemma read_write_other:
  "write_prop v k x = Some v' \<Longrightarrow> k' \<noteq> k \<Longrightarrow> read_prop v' k' = read_prop v k'"
  by (auto dest!: write_prop_SomeD simp: update_conv')

lemma write_prop_is_object:
  "write_prop v k x = Some v' \<Longrightarrow> is_object v" "write_prop v k x = Some v' \<Longrightarrow> is_object v'"
  by (auto dest!: write_prop_SomeD)

lemma write_prop_object: "is_object v \<Longrightarrow> \<exists>v'. write_prop v k x = Some v'"
  by (cases v) simp_all

lemma read_prop_string_examples:
  "read_prop (Str ''hi'') ''length'' = Some (Num 2)
   \<and> read_prop (Str ''hi'') ''1'' = Some (Str ''i'')
   \<and> read_prop (Str ''hi'') ''message'' = Some Undefined"
  by code_simp

lemma truthy_examples:
  "\<not> truthy (Num 0)" "truthy (Num 7)" "\<not> truthy (Str [])" "truthy (Str ''0'')"
  "truthy (Obj [])" "\<not> truthy Null" "\<not> truthy Undefined" "truthy (Bool b) = b"
  by simp_all

lemma property_examples:
  "read_prop (Num 5) ''state'' = Some Undefined"
  "read_prop (Obj [(''state'', Num 1)]) ''state'' = Some (Num 1)"
  "read_prop Null ''message'' = None"
  "write_prop (Obj [(''a'', Num 1)]) ''b'' (Num 2) = Some (Obj [(''a'', Num 1), (''b'', Num 2)])"
  "write_prop (Obj [(''a'', Num 1)]) ''a'' (Num 2) = Some (Obj [(''a'', Num 2)])"
  "write_prop (Num 5) ''state'' (Num 1) = None"
  by simp_all

lemma is_object_not_nullish: "is_object v \<Longrightarrow> \<not> nullish v"
  by (cases v) (simp_all add: nullish_def)

lemma is_object_coalesce:
  "nullish v \<or> is_object v \<Longrightarrow> is_object (coalesce v (Obj []))"
  by (auto simp: coalesce_def is_object_not_nullish)

section \<open>Properties of the middleware\<close>

lemma middleware_handled:
  assumes "find_handler m ctx w = Some h"
    and "parseAction (handler_action h) = Some p"
    and "action p \<noteq> None" and "sourceId p = menu_id m"
    and "callback_message_id ctx = active_message (session w)"
  shows "middleware run m ctx nxt w =
           (case handle_try run m ctx (action p) h w of
              (Err e, w') \<Rightarrow>
                (case read_prop e ''message'' of
                   None \<Rightarrow> (Err TypeError, w')
                 | Some msg \<Rightarrow>
                     (Err e, w'\<lparr>log := log w' @ [AnswerCallbackQuery
                                    (Some (coalesce msg (Str ''Unknown error''))) True]\<rparr>))
            | settled \<Rightarrow> settled)"
  using assms
  by (auto simp: middleware_def Let_def call_answerCallbackQuery_caught_def
        split: option.splits prod.splits res.splits)

lemma handle_try_run:
  assumes "callbackFn h = Some fn"
    and "getState m (session w) = (Ok st, sa)"
    and "read_prop (menu_session sa) ''activeMenuLoaderData'' = Some d"
    and "run fn ctx (getCallbackActions m ctx) d (w\<lparr>session := sa\<rparr>) = (r, wb)"
  shows "handle_try run m ctx (Some Callback) h w =
           (case r of
              Ok u \<Rightarrow> (Ok (), wb\<lparr>log := log wb @ [AnswerCallbackQuery None False]\<rparr>)
            | Err e \<Rightarrow> (Err e, wb)
            | Never \<Rightarrow> (Err (Error_new (timeout_text m)), wb))"
  using assms
  by (cases r)
     (simp_all add: handle_try_def await_def on_session_def race_timeout_def
        call_answerCallbackQuery_caught_def Let_def split: option.splits)

subsection \<open>The example menus\<close>

lemma demo_static_A:
  "staticActionHandlersByAction demo_menu ''eijdfwof:abc123:call:aaaaaa''
     = Some \<lparr>handler_action = ''eijdfwof:abc123:call:aaaaaa'', callbackFn = Some 1\<rparr>"
  by (simp add: demo_menu_def createMenu_def Menu_new_def demo_layout_def dynamic_def
        callback_def row_def LayoutBuilder_new_def prepare_def List.map_filter_simps
        handler_map_def buildAction_def MENU_PREFIX_def representation_def
        ACTION_REPRESENTATION_MAPPING_def Let_def)

lemma parse_demo_A:
  "parseAction ''eijdfwof:abc123:call:aaaaaa''
     = Some \<lparr>action = Some Callback, sourceId = ''abc123'', targetId = Some ''aaaaaa''\<rparr>"
  by (simp add: parseAction_def MENU_PREFIX_def ACTION_REPRESENTATION_MAPPING_def
        action_of_representation_def Let_def eval_nat_numeral)

lemma menu_id_demo: "menu_id demo_menu = ''abc123''"
  by (simp add: demo_menu_def createMenu_def Menu_new_def)

lemma options_demo: "options demo_menu = None"
  by (simp add: demo_menu_def createMenu_def Menu_new_def)

lemma find_demo_A:
  "find_handler demo_menu (demo_ctx c ''eijdfwof:abc123:call:aaaaaa'' i) w
     = Some \<lparr>handler_action = ''eijdfwof:abc123:call:aaaaaa'', callbackFn = Some 1\<rparr>"
  by (simp add: find_handler_def callback_data_def demo_ctx_def demo_static_A)

lemma other_static_Back:
  "staticActionHandlersByAction other_menu ''eijdfwof:xyz789:call:eeeeee''
     = Some \<lparr>handler_action = ''eijdfwof:xyz789:call:eeeeee'', callbackFn = Some 0\<rparr>"
  by (simp add: other_menu_def createMenu_def Menu_new_def
        callback_def LayoutBuilder_new_def prepare_def List.map_filter_simps
        handler_map_def buildAction_def MENU_PREFIX_def representation_def
        ACTION_REPRESENTATION_MAPPING_def Let_def)

lemma parse_other_Back:
  "parseAction ''eijdfwof:xyz789:call:eeeeee''
     = Some \<lparr>action = Some Callback, sourceId = ''xyz789'', targetId = Some ''eeeeee''\<rparr>"
  by (simp add: parseAction_def MENU_PREFIX_def ACTION_REPRESENTATION_MAPPING_def
        action_of_representation_def Let_def eval_nat_numeral)

lemma menu_id_other: "menu_id other_menu = ''xyz789''"
  by (simp add: other_menu_def createMenu_def Menu_new_def)

lemma options_other:
  "options other_menu
     = Some \<lparr>staleErrorText = Some ''Too old'', timeoutErrorText = Some ''Too slow'',
             timeoutMs = Some 50\<rparr>"
  by (simp add: other_menu_def createMenu_def Menu_new_def)

lemma find_other_Back:
  "find_handler other_menu (demo_ctx c ''eijdfwof:xyz789:call:eeeeee'' i) w
     = Some \<lparr>handler_action = ''eijdfwof:xyz789:call:eeeeee'', callbackFn = Some 0\<rparr>"
  by (simp add: find_handler_def callback_data_def demo_ctx_def other_static_Back)

lemma getState_active_world:
  "getState demo_menu (session active_world) = (Ok False, session active_world)"
  by (simp add: getState_def active_world_def menu_id_demo)
     (simp add: demo_menu_def createMenu_def Menu_new_def)

text \<open>The first \<open>getState\<close> of the menu with a state initializer fills the slot.\<close>

lemma getState_initialises:
  "getState other_menu \<lparr>menu_session = Obj [(''xyz789'', Obj [])], other_data = Undefined\<rparr>
     = (Ok True,
        \<lparr>menu_session = Obj [(''xyz789'', Obj [(''state'', Obj [(''count'', Num 0)])])],
           other_data = Undefined\<rparr>)"
  by (simp add: getState_def other_menu_def createMenu_def Menu_new_def)

lemma active_message_active_world: "active_message (session active_world) = Num 1"
  by (simp add: active_message_def active_world_def nullish_def)

lemma callback_message_id_demo:
  "callback_message_id (demo_ctx c tok i) = (case i of None \<Rightarrow> Undefined | Some n \<Rightarrow> Num n)"
  by (simp add: callback_message_id_def demo_ctx_def)

section \<open>Properties of the render path\<close>

lemma await_preserves:
  assumes "g (snd (p s)) = g s"
    and "\<And>a s'. p s = (Ok a, s') \<Longrightarrow> g (snd (rest a s')) = g s'"
  shows "g (snd (await p rest s)) = g s"
  using assms by (auto simp: await_def split: prod.splits res.splits)

lemma run_steps_keeps:
  "steps_keep_active ctx ss \<Longrightarrow>
     active_message (snd (run_steps (map build_step ss) ctx mid d acc s)) = active_message s"
proof (induction arbitrary: acc s mid d rule: steps_keep_active.induct)
  case no_steps
  then show ?case by (simp add: resolve_def)
next
  case (static_first ss items h)
  then show ?case by (simp add: await_def resolve_def)
next
  case (dynamic_first f ss)
  have step: "active_message (snd (build_step (Dynamic f) ctx mid d acc s)) = active_message s"
    unfolding build_step_Dynamic
  proof (rule await_preserves)
    show "active_message (snd (f ctx mid d s)) = active_message s"
      using dynamic_first.hyps(1) by (simp add: keeps_active_def)
  next
    fix nested s'
    assume "f ctx mid d s = (Ok nested, s')"
    then have "fst (f ctx mid d s) = Ok nested" by simp
    from dynamic_first.IH(1) [OF this]
    have "active_message (snd (run_steps (map build_step nested) ctx mid d build_start s'))
            = active_message s'" .
    then show "active_message
       (snd (await (build \<lparr>menuId = mid, steps = nested\<rparr> ctx d)
              (\<lambda>dynamicBuild. resolve (dynamic_step dynamicBuild acc)) s')) = active_message s'"
      by (auto simp: build_def await_def resolve_def split: prod.splits res.splits)
  qed
  have "run_steps (map build_step (Dynamic f # ss)) ctx mid d acc
          = await (build_step (Dynamic f) ctx mid d acc) (run_steps (map build_step ss) ctx mid d)"
    by simp
  then show ?case
    using step dynamic_first.IH(2)
    by (simp only: await_preserves [where g = active_message])
qed

lemma build_keeps:
  "steps_keep_active ctx (steps b) \<Longrightarrow> active_message (snd (build b ctx d s)) = active_message s"
  unfolding build_def
  by (rule await_preserves) (simp_all add: run_steps_keeps resolve_def)

text \<open>A write of a property other than \<^verbatim>\<open>activeMessageId\<close> leaves that property as it is.\<close>

lemma active_message_write:
  assumes "write_prop (menu_session s) k x = Some menu'" and "k \<noteq> ''activeMessageId''"
  shows "active_message (s\<lparr>menu_session := menu'\<rparr>) = active_message s"
proof -
  from assms(1) have "is_object (menu_session s)" and "is_object menu'"
    by (rule write_prop_is_object)+
  moreover from assms(2) have "''activeMessageId'' \<noteq> k"
    by simp
  ultimately show ?thesis
    using read_write_other [OF assms(1), of "''activeMessageId''"]
    by (simp add: active_message_def is_object_not_nullish)
qed

lemma active_message_coalesce:
  "active_message (s\<lparr>menu_session := coalesce (menu_session s) (Obj [])\<rparr>) = active_message s"
  by (simp add: active_message_def coalesce_def nullish_def)

lemma active_initContext:
  assumes "menu_id m \<noteq> ''activeMessageId''"
  shows "active_message (snd (initContext m s)) = active_message s"
proof -
  let ?s0 = "s\<lparr>menu_session := coalesce (menu_session s) (Obj [])\<rparr>"
  have "active_message (?s0\<lparr>menu_session := menu'\<rparr>) = active_message ?s0"
    if "write_prop (menu_session ?s0) (menu_id m) (Obj []) = Some menu'" for menu'
    using that assms by (rule active_message_write)
  then show ?thesis
    using active_message_coalesce [of s]
    by (auto simp: initContext_def Let_def split: option.splits)
qed

lemma active_getState:
  assumes "menu_id m \<noteq> ''activeMessageId''"
  shows "active_message (snd (getState m s)) = active_message s"
  using active_message_write [of s "menu_id m"] assms
  by (auto simp: getState_def split: option.splits res.splits)

lemma active_store_loader: "active_message (snd (store_loader args d s)) = active_message s"
proof -
  have one: "active_message (s\<lparr>menu_session := menu'\<rparr>) = active_message s"
    if "write_prop (menu_session s) ''activeMenuLoaderArgs'' args = Some menu'" for menu'
    using that by (rule active_message_write) simp
  have two: "active_message (s\<lparr>menu_session := menu''\<rparr>) = active_message (s\<lparr>menu_session := menu'\<rparr>)"
    if "write_prop menu' ''activeMenuLoaderData'' d = Some menu''" for menu' menu''
    using active_message_write [of "s\<lparr>menu_session := menu'\<rparr>" "''activeMenuLoaderData''" d menu'']
      that by simp
  show ?thesis
    using one two by (auto simp: store_loader_def split: option.splits)
qed

lemma snd_on_session: "session (snd (on_session f w)) = snd (f (session w))"
  by (simp add: on_session_def split: prod.splits)

lemma snd_race_timeout: "snd (race_timeout m p s) = snd (p s)"
  by (simp add: race_timeout_def split: prod.splits res.splits)

lemma buildLayout_keeps:
  assumes "hooks_keep_active m ctx" and "menu_id m \<noteq> ''activeMessageId''"
  shows "active_message (session (snd (buildLayout m ctx args w))) = active_message (session w)"
proof -
  let ?g = "\<lambda>w :: 'a World. active_message (session w)"
  from assms have loader: "\<And>s. active_message (snd (loaderFn m ctx args s)) = active_message s"
    and enter: "\<And>f s. onEnterFn m = Some f \<Longrightarrow> active_message (snd (f ctx s)) = active_message s"
    and steps: "steps_keep_active ctx (steps (builder m))"
    by (auto simp: hooks_keep_active_def keeps_active_def)
  have enter': "\<And>s. active_message
        (snd ((case onEnterFn m of None \<Rightarrow> resolve () | Some f \<Rightarrow> f ctx) s)) = active_message s"
    using enter by (cases "onEnterFn m") (simp_all add: resolve_def)
  show ?thesis
    unfolding buildLayout_def
    by (intro await_preserves [where g = ?g])
       (simp_all add: snd_on_session active_initContext [OF assms(2)]
          active_getState [OF assms(2)] enter'
          snd_race_timeout loader build_keeps [OF steps] active_store_loader
          set_dynamic_handlers_def resolve_def)
qed

lemma log_on_session: "log (snd (on_session f w)) = log w"
  by (simp add: on_session_def split: prod.splits)

lemma buildLayout_log: "log (snd (buildLayout m ctx args w)) = log w"
  unfolding buildLayout_def
  by (intro await_preserves [where g = log])
     (simp_all add: log_on_session set_dynamic_handlers_def resolve_def)

lemma render_keeps:
  assumes "hooks_keep_active m ctx" and "menu_id m \<noteq> ''activeMessageId''"
  shows "active_message (session (snd (render m ctx args w))) = active_message (session w)"
  unfolding render_def
  by (rule await_preserves [where g = "\<lambda>w. active_message (session w)"])
     (simp_all add: buildLayout_keeps [OF assms] call_editMessageText_def Let_def)

lemma buildLayout_OkD:
  assumes "buildLayout m ctx args w = (Ok l, w')"
  obtains sz st sa sb r sc b sd se where
    "initContext m (session w) = (Ok (), sz)"
    and "getState m sz = (Ok st, sa)"
    and "(case onEnterFn m of None \<Rightarrow> resolve () | Some f \<Rightarrow> f ctx) sa = (Ok (), sb)"
    and "loaderFn m ctx args sb = (Ok r, sc)"
    and "build (builder m) ctx (lr_data r) sc = (Ok b, sd)"
    and "store_loader args (lr_data r) sd = (Ok (), se)"
    and "l = \<lparr>layout_text = lr_text r, layout_keyboard = keyboard b,
              layout_parseMode = lr_parseMode r\<rparr>"
    and "w' = w\<lparr>session := se,
                dynamicActionHandlersByActionByChatId :=
                  (dynamicActionHandlersByActionByChatId w)
                    (menu_id m := (dynamicActionHandlersByActionByChatId w (menu_id m))
                                    (chat_key ctx \<mapsto> handler_map (dynamicHandlers b)))\<rparr>"
proof -
  from assms obtain w0 where
    i: "on_session (initContext m) w = (Ok (), w0)"
    and r0: "await (on_session (getState m)) (\<lambda>_.
     await (on_session (case onEnterFn m of None \<Rightarrow> resolve () | Some f \<Rightarrow> f ctx)) (\<lambda>_.
     await (on_session (race_timeout m (loaderFn m ctx args))) (\<lambda>r.
     await (on_session (build (builder m) ctx (lr_data r))) (\<lambda>b.
     await (set_dynamic_handlers m ctx (dynamicHandlers b)) (\<lambda>_.
     await (on_session (store_loader args (lr_data r))) (\<lambda>_.
     resolve \<lparr>layout_text = lr_text r, layout_keyboard = keyboard b,
              layout_parseMode = lr_parseMode r\<rparr>)))))) w0 = (Ok l, w')"
    unfolding buildLayout_def
    by (auto simp: await_def split: prod.splits res.splits)
  from r0 obtain st w1 where
    g: "on_session (getState m) w0 = (Ok st, w1)"
    and r1: "await (on_session (case onEnterFn m of None \<Rightarrow> resolve () | Some f \<Rightarrow> f ctx)) (\<lambda>_.
     await (on_session (race_timeout m (loaderFn m ctx args))) (\<lambda>r.
     await (on_session (build (builder m) ctx (lr_data r))) (\<lambda>b.
     await (set_dynamic_handlers m ctx (dynamicHandlers b)) (\<lambda>_.
     await (on_session (store_loader args (lr_data r))) (\<lambda>_.
     resolve \<lparr>layout_text = lr_text r, layout_keyboard = keyboard b,
              layout_parseMode = lr_parseMode r\<rparr>))))) w1 = (Ok l, w')"
    by (auto simp: await_def split: prod.splits res.splits)
  from r1 obtain w2 where
    e: "on_session (case onEnterFn m of None \<Rightarrow> resolve () | Some f \<Rightarrow> f ctx) w1 = (Ok (), w2)"
    and r2: "await (on_session (race_timeout m (loaderFn m ctx args))) (\<lambda>r.
     await (on_session (build (builder m) ctx (lr_data r))) (\<lambda>b.
     await (set_dynamic_handlers m ctx (dynamicHandlers b)) (\<lambda>_.
     await (on_session (store_loader args (lr_data r))) (\<lambda>_.
     resolve \<lparr>layout_text = lr_text r, layout_keyboard = keyboard b,
              layout_parseMode = lr_parseMode r\<rparr>)))) w2 = (Ok l, w')"
    by (auto simp: await_def split: prod.splits res.splits)
  from r2 obtain r w3 where
    lo: "on_session (race_timeout m (loaderFn m ctx args)) w2 = (Ok r, w3)"
    and r3: "await (on_session (build (builder m) ctx (lr_data r))) (\<lambda>b.
     await (set_dynamic_handlers m ctx (dynamicHandlers b)) (\<lambda>_.
     await (on_session (store_loader args (lr_data r))) (\<lambda>_.
     resolve \<lparr>layout_text = lr_text r, layout_keyboard = keyboard b,
              layout_parseMode = lr_parseMode r\<rparr>))) w3 = (Ok l, w')"
    by (auto simp: await_def split: prod.splits res.splits)
  from r3 obtain b w4 where
    bu: "on_session (build (builder m) ctx (lr_data r)) w3 = (Ok b, w4)"
    and r4: "await (set_dynamic_handlers m ctx (dynamicHandlers b)) (\<lambda>_.
     await (on_session (store_loader args (lr_data r))) (\<lambda>_.
     resolve \<lparr>layout_text = lr_text r, layout_keyboard = keyboard b,
              layout_parseMode = lr_parseMode r\<rparr>)) w4 = (Ok l, w')"
    by (auto simp: await_def split: prod.splits res.splits)
  from i obtain sz where sz: "initContext m (session w) = (Ok (), sz)"
    and w0: "w0 = w\<lparr>session := sz\<rparr>"
    by (auto simp: on_session_def split: prod.splits)
  from g obtain sa where sa: "getState m sz = (Ok st, sa)"
    and w1: "w1 = w\<lparr>session := sa\<rparr>"
    by (auto simp: on_session_def w0 split: prod.splits)
  from e obtain sb where
    sb: "(case onEnterFn m of None \<Rightarrow> resolve () | Some f \<Rightarrow> f ctx) sa = (Ok (), sb)"
    and w2: "w2 = w\<lparr>session := sb\<rparr>"
    by (auto simp: on_session_def w1 split: prod.splits)
  from lo obtain sc where sc: "loaderFn m ctx args sb = (Ok r, sc)"
    and w3: "w3 = w\<lparr>session := sc\<rparr>"
    by (auto simp: on_session_def w2 race_timeout_def split: prod.splits res.splits)
  from bu obtain sd where sd: "build (builder m) ctx (lr_data r) sc = (Ok b, sd)"
    and w4: "w4 = w\<lparr>session := sd\<rparr>"
    by (auto simp: on_session_def w3 split: prod.splits)
  from r4 obtain se where se: "store_loader args (lr_data r) sd = (Ok (), se)"
    and l: "l = \<lparr>layout_text = lr_text r, layout_keyboard = keyboard b,
              layout_parseMode = lr_parseMode r\<rparr>"
    and w': "w' = w\<lparr>session := se,
                dynamicActionHandlersByActionByChatId :=
                  (dynamicActionHandlersByActionByChatId w)
                    (menu_id m := (dynamicActionHandlersByActionByChatId w (menu_id m))
                                    (chat_key ctx \<mapsto> handler_map (dynamicHandlers b)))\<rparr>"
    by (auto simp: await_def on_session_def set_dynamic_handlers_def
          resolve_def w4 split: prod.splits res.splits)
  from sz sa sb sc sd se l w' show ?thesis by (rule that)
qed

lemma buildLayout_Ok_ex:
  assumes "buildLayout m ctx args w = (Ok l, w')"
  shows "\<exists>sb r sc b sd se.
           loaderFn m ctx args sb = (Ok r, sc)
         \<and> build (builder m) ctx (lr_data r) sc = (Ok b, sd)
         \<and> store_loader args (lr_data r) sd = (Ok (), se)
         \<and> l = \<lparr>layout_text = lr_text r, layout_keyboard = keyboard b,
                 layout_parseMode = lr_parseMode r\<rparr>
         \<and> session w' = se
         \<and> dynamicActionHandlersByActionByChatId w' =
               (dynamicActionHandlersByActionByChatId w)
                 (menu_id m := (dynamicActionHandlersByActionByChatId w (menu_id m))
                                 (chat_key ctx \<mapsto> handler_map (dynamicHandlers b)))"
proof -
  from assms obtain sz st sa sb r sc b sd se where
    "initContext m (session w) = (Ok (), sz)"
    and "getState m sz = (Ok st, sa)"
    and "(case onEnterFn m of None \<Rightarrow> resolve () | Some f \<Rightarrow> f ctx) sa = (Ok (), sb)"
    and lo: "loaderFn m ctx args sb = (Ok r, sc)"
    and b: "build (builder m) ctx (lr_data r) sc = (Ok b, sd)"
    and se: "store_loader args (lr_data r) sd = (Ok (), se)"
    and l: "l = \<lparr>layout_text = lr_text r, layout_keyboard = keyboard b,
              layout_parseMode = lr_parseMode r\<rparr>"
    and w': "w' = w\<lparr>session := se,
                dynamicActionHandlersByActionByChatId :=
                  (dynamicActionHandlersByActionByChatId w)
                    (menu_id m := (dynamicActionHandlersByActionByChatId w (menu_id m))
                                    (chat_key ctx \<mapsto> handler_map (dynamicHandlers b)))\<rparr>"
    by (rule buildLayout_OkD)
  show ?thesis
    apply (rule exI [of _ sb], rule exI [of _ r], rule exI [of _ sc], rule exI [of _ b],
        rule exI [of _ sd], rule exI [of _ se])
    using lo b se l w' by simp
qed

text \<open>After the two writes of \<open>buildLayout\<close>, \<^verbatim>\<open>_menu\<close> is an object that holds the arguments
  and the data.\<close>

lemma store_loader_OkD:
  assumes "store_loader args d s = (Ok (), s')"
  shows "is_object (menu_session s')"
    and "read_prop (menu_session s') ''activeMenuLoaderArgs'' = Some args"
    and "read_prop (menu_session s') ''activeMenuLoaderData'' = Some d"
proof -
  from assms obtain menu' menu'' where
    one: "write_prop (menu_session s) ''activeMenuLoaderArgs'' args = Some menu'"
    and two: "write_prop menu' ''activeMenuLoaderData'' d = Some menu''"
    and s': "s' = s\<lparr>menu_session := menu''\<rparr>"
    by (auto simp: store_loader_def split: option.splits)
  show "is_object (menu_session s')"
    using write_prop_is_object(2) [OF two] by (simp add: s')
  have "read_prop menu'' ''activeMenuLoaderArgs'' = read_prop menu' ''activeMenuLoaderArgs''"
    using two by (rule read_write_other) simp
  then show "read_prop (menu_session s') ''activeMenuLoaderArgs'' = Some args"
    using read_write_same [OF one] by (simp add: s')
  show "read_prop (menu_session s') ''activeMenuLoaderData'' = Some d"
    using read_write_same [OF two] by (simp add: s')
qed

lemma store_loader_object:
  assumes "is_object (menu_session s)"
  shows "\<exists>s'. store_loader args d s = (Ok (), s')"
proof -
  from assms obtain menu' where
    one: "write_prop (menu_session s) ''activeMenuLoaderArgs'' args = Some menu'"
    using write_prop_object by blast
  then have "is_object menu'"
    by (rule write_prop_is_object)
  then obtain menu'' where "write_prop menu' ''activeMenuLoaderData'' d = Some menu''"
    using write_prop_object by blast
  with one show ?thesis
    by (simp add: store_loader_def)
qed

lemma buildLayout_session:
  assumes "buildLayout m ctx args w = (Ok l, wa)"
  shows "is_object (menu_session (session wa))"
    and "read_prop (menu_session (session wa)) ''activeMenuLoaderArgs'' = Some args"
proof -
  from buildLayout_Ok_ex [OF assms] obtain sb r sc sd se where
    "loaderFn m ctx args sb = (Ok r, sc)"
    and "store_loader args (lr_data r) sd = (Ok (), se)" and "session wa = se"
    by (elim exE conjE)
  then have se: "store_loader args (lr_data r) sd = (Ok (), session wa)"
    by simp
  show "is_object (menu_session (session wa))"
    using se by (rule store_loader_OkD)
  show "read_prop (menu_session (session wa)) ''activeMenuLoaderArgs'' = Some args"
    using se by (rule store_loader_OkD)
qed

lemma registry_after_edit:
  "dynamicActionHandlersByActionByChatId (snd (call_editMessageText ctx t pm kb w))
     = dynamicActionHandlersByActionByChatId w"
  by (simp add: call_editMessageText_def Let_def)

lemma render_after_layout:
  assumes "buildLayout m ctx args w = (Ok l, wa)"
  shows "render m ctx args w
           = call_editMessageText ctx (layout_text l) (layout_parseMode l) (layout_keyboard l) wa"
  using assms by (simp add: render_def await_def)

lemma session_after_render:
  assumes "buildLayout m ctx args w = (Ok l, wa)"
  shows "session (snd (render m ctx args w)) = session wa"
  by (simp add: render_after_layout [OF assms] call_editMessageText_def Let_def)

lemma send_try_after_layout:
  assumes "buildLayout m ctx args w = (Ok l, wa)"
  shows "send_try m ctx args w =
           (case reply ctx (log wa @ [Reply (Str (layout_text l))
                                          (Some (layout_parseMode l, layout_keyboard l))]) of
              Inl e \<Rightarrow>
                (Err e, wa\<lparr>log := log wa @ [Reply (Str (layout_text l))
                                                (Some (layout_parseMode l, layout_keyboard l))]\<rparr>)
            | Inr i \<Rightarrow>
                on_session (set_activeMessageId i)
                  (wa\<lparr>log := log wa @ [Reply (Str (layout_text l))
                                          (Some (layout_parseMode l, layout_keyboard l))]\<rparr>))"
  using assms
  by (simp add: send_try_def await_def call_reply_def Let_def split: sum.splits)

lemma send_success:
  assumes "buildLayout m ctx args w = (Ok l, wa)"
    and "reply ctx (log wa @ [Reply (Str (layout_text l))
                                 (Some (layout_parseMode l, layout_keyboard l))]) = Inr i"
  shows "fst (send m ctx args w) = Ok ()"
    and "active_message (session (snd (send m ctx args w))) = Num i"
    and "log (snd (send m ctx args w))
           = log w @ [Reply (Str (layout_text l)) (Some (layout_parseMode l, layout_keyboard l))]"
    and "dynamicActionHandlersByActionByChatId (snd (send m ctx args w))
           = dynamicActionHandlersByActionByChatId wa"
    and "is_object (menu_session (session (snd (send m ctx args w))))"
proof -
  from assms(1) have "is_object (menu_session (session wa))"
    by (rule buildLayout_session)
  then obtain menu' where
    wr: "write_prop (menu_session (session wa)) ''activeMessageId'' (Num i) = Some menu'"
    using write_prop_object by blast
  have obj: "is_object menu'" and rd: "read_prop menu' ''activeMessageId'' = Some (Num i)"
    using wr by (rule write_prop_is_object, rule read_write_same)
  have "log wa = log w"
    using buildLayout_log [of m ctx args w] assms(1) by simp
  then show "fst (send m ctx args w) = Ok ()"
    and "active_message (session (snd (send m ctx args w))) = Num i"
    and "log (snd (send m ctx args w))
           = log w @ [Reply (Str (layout_text l)) (Some (layout_parseMode l, layout_keyboard l))]"
    and "dynamicActionHandlersByActionByChatId (snd (send m ctx args w))
           = dynamicActionHandlersByActionByChatId wa"
    and "is_object (menu_session (session (snd (send m ctx args w))))"
    using assms(2) wr obj rd
    by (simp_all add: send_def send_try_after_layout [OF assms(1)] on_session_def
          set_activeMessageId_def active_message_def is_object_not_nullish)
qed

lemma handler_map_fold:
  "fold (\<lambda>h m. m(handler_action h \<mapsto> h)) hs m0
     = m0 ++ map_of (map (\<lambda>h. (handler_action h, h)) (rev hs))"
  by (induction hs arbitrary: m0) (simp_all add: map_add_def fun_eq_iff split: option.splits)

lemma handler_map_map_of:
  "handler_map hs = map_of (map (\<lambda>h. (handler_action h, h)) (rev hs))"
  by (simp add: handler_map_def handler_map_fold)

lemma dom_handler_map: "dom (handler_map hs) = handler_action ` set hs"
  by (force simp: handler_map_map_of dom_map_of_conv_image_fst)

lemma registry_after_render:
  assumes "buildLayout m ctx args w = (Ok l, wa)"
  shows "dynamicActionHandlersByActionByChatId (snd (render m ctx args w))
           = dynamicActionHandlersByActionByChatId wa"
  by (simp add: render_after_layout [OF assms] registry_after_edit)

lemma registry_after_send:
  assumes "buildLayout m ctx args w = (Ok l, wa)"
  shows "dynamicActionHandlersByActionByChatId (snd (send m ctx args w))
           = dynamicActionHandlersByActionByChatId wa"
  by (simp add: send_def send_try_after_layout [OF assms] on_session_def set_activeMessageId_def
        await_def call_reply_def resolve_def Let_def split: sum.splits option.splits)

text \<open>\<open>initContext\<close> succeeds when \<^verbatim>\<open>_menu\<close> is missing or an object, and the slot it leaves is
  one that \<open>getState\<close> can read.\<close>

lemma initContext_OkD:
  assumes "initContext m s = (Ok (), s')"
  shows "\<exists>slot. read_prop (menu_session s') (menu_id m) = Some slot \<and> \<not> nullish slot"
proof -
  let ?menu = "coalesce (menu_session s) (Obj [])"
  from assms obtain slot where slot: "read_prop ?menu (menu_id m) = Some slot"
    by (auto simp: initContext_def Let_def split: option.splits if_splits)
  show ?thesis
  proof (cases "nullish slot")
    case True
    with assms slot obtain menu' where
      "write_prop ?menu (menu_id m) (Obj []) = Some menu'" and "s' = s\<lparr>menu_session := menu'\<rparr>"
      by (auto simp: initContext_def Let_def split: option.splits)
    then show ?thesis
      using read_write_same [of ?menu "menu_id m" "Obj []" menu'] by (simp add: nullish_def)
  next
    case False
    with assms slot have "s' = s\<lparr>menu_session := ?menu\<rparr>"
      by (simp add: initContext_def Let_def)
    with slot False show ?thesis by simp
  qed
qed

lemma initContext_object:
  assumes "nullish (menu_session s) \<or> is_object (menu_session s)"
  shows "\<exists>s'. initContext m s = (Ok (), s') \<and> is_object (menu_session s')"
proof -
  let ?menu = "coalesce (menu_session s) (Obj [])"
  from assms have obj: "is_object ?menu"
    by (rule is_object_coalesce)
  then obtain slot where slot: "read_prop ?menu (menu_id m) = Some slot"
    by (cases ?menu) simp_all
  from obj obtain menu' where wr: "write_prop ?menu (menu_id m) (Obj []) = Some menu'"
    using write_prop_object by blast
  then have "is_object menu'"
    by (rule write_prop_is_object)
  with obj slot wr show ?thesis
    by (simp add: initContext_def Let_def)
qed

lemma getState_after_initContext:
  assumes "initStateFn m = None" and "initContext m s = (Ok (), s')"
  shows "\<exists>st. getState m s' = (Ok st, s')"
proof -
  from assms(2) obtain slot where
    slot: "read_prop (menu_session s') (menu_id m) = Some slot" and "\<not> nullish slot"
    using initContext_OkD by blast
  then obtain x where "read_prop slot ''state'' = Some x"
    using read_prop_None_iff [of slot "''state''"] by (cases "read_prop slot ''state''") auto
  with slot assms(1) show ?thesis
    by (auto simp: getState_def)
qed

subsection \<open>The key of a chat\<close>

lemma string_of_nat_not_Nil: "string_of_nat n \<noteq> []"
  by (subst string_of_nat.simps) simp

lemma chat_key_Nil_iff: "(chat_key cx = []) = (chat cx = None)"
  by (simp add: chat_key_def string_of_int_def string_of_nat_not_Nil split: option.splits)

lemma string_of_int_examples:
  "string_of_int 42 = ''42''" "string_of_int (- 17) = ''-17''"
  unfolding string_of_int_def
  by (simp_all add: string_of_nat.simps [of 42] string_of_nat.simps [of 17]
        string_of_nat.simps [of 4] string_of_nat.simps [of "Suc 0"] digit_char_def)
     code_simp+

text \<open>Decimal printing is one-to-one, so two chats never share a key.\<close>

lemma digit_char_inj: "a < 10 \<Longrightarrow> b < 10 \<Longrightarrow> digit_char a = digit_char b \<Longrightarrow> a = b"
  unfolding digit_char_def
proof -
  assume a: "a < 10" and b: "b < 10" and eq: "(char_of (48 + a) :: char) = char_of (48 + b)"
  from eq have "of_char (char_of (48 + a) :: char) = (of_char (char_of (48 + b) :: char) :: nat)"
    by simp
  with a b show "a = b"
    by (simp add: of_char_of)
qed

lemma digit_char_not_minus: "k < 10 \<Longrightarrow> digit_char k \<noteq> CHR ''-''"
proof
  assume k: "k < 10" and "digit_char k = CHR ''-''"
  then have "of_char (char_of (48 + k) :: char) = (of_char CHR ''-'' :: nat)"
    by (simp add: digit_char_def)
  with k show False
    by (simp add: of_char_of)
qed

lemma string_of_nat_inj: "string_of_nat a = string_of_nat b \<Longrightarrow> a = b"
proof (induction a arbitrary: b rule: string_of_nat.induct)
  case (1 n)
  consider (both_small) "n < 10" "b < 10"
    | (left_small) "n < 10" "\<not> b < 10"
    | (right_small) "\<not> n < 10" "b < 10"
    | (both_big) "\<not> n < 10" "\<not> b < 10"
    by blast
  then show ?case
  proof cases
    case both_small
    with "1.prems" show ?thesis
      by (simp add: string_of_nat.simps [of n] string_of_nat.simps [of b] digit_char_inj)
  next
    case left_small
    with "1.prems" have "string_of_nat (b div 10) = []"
      by (simp add: string_of_nat.simps [of n] string_of_nat.simps [of b])
    then show ?thesis
      by (simp add: string_of_nat_not_Nil)
  next
    case right_small
    with "1.prems" have "string_of_nat (n div 10) = []"
      by (simp add: string_of_nat.simps [of n] string_of_nat.simps [of b])
    then show ?thesis
      by (simp add: string_of_nat_not_Nil)
  next
    case both_big
    with "1.prems" have init: "string_of_nat (n div 10) = string_of_nat (b div 10)"
      and last: "digit_char (n mod 10) = digit_char (b mod 10)"
      by (simp_all add: string_of_nat.simps [of n] string_of_nat.simps [of b])
    from "1.IH" [OF both_big(1) init] have "n div 10 = b div 10" .
    moreover from last have "n mod 10 = b mod 10"
      by (rule digit_char_inj [rotated 2]) simp_all
    ultimately show ?thesis
      by (metis div_mult_mod_eq)
  qed
qed

lemma hd_string_of_nat: "hd (string_of_nat n) \<noteq> CHR ''-''"
proof (induction n rule: string_of_nat.induct)
  case (1 n)
  show ?case
  proof (cases "n < 10")
    case True
    then show ?thesis
      by (simp add: string_of_nat.simps [of n] digit_char_not_minus)
  next
    case False
    with "1.IH" show ?thesis
      by (simp add: string_of_nat.simps [of n] string_of_nat_not_Nil)
  qed
qed

lemma string_of_int_inj: "string_of_int i = string_of_int j \<Longrightarrow> i = j"
proof -
  assume eq: "string_of_int i = string_of_int j"
  have neg: "hd (string_of_int k) = CHR ''-''" if "k < 0" for k
    using that by (simp add: string_of_int_def)
  have pos: "hd (string_of_int k) \<noteq> CHR ''-''" if "\<not> k < 0" for k
    using that by (simp add: string_of_int_def hd_string_of_nat)
  have sign: "(i < 0) = (j < 0)"
    using neg [of i] neg [of j] pos [of i] pos [of j] eq by metis
  show "i = j"
  proof (cases "i < 0")
    case True
    with sign eq have "nat (- i) = nat (- j)"
      by (simp add: string_of_int_def string_of_nat_inj)
    with True sign show ?thesis by simp
  next
    case False
    with sign eq have "nat i = nat j"
      by (simp add: string_of_int_def string_of_nat_inj)
    with False sign show ?thesis by simp
  qed
qed

lemma string_of_int_not_Nil: "string_of_int i \<noteq> []"
  by (simp add: string_of_int_def string_of_nat_not_Nil)

lemma chat_key_inj: "(chat_key cx = chat_key cy) = (chat cx = chat cy)"
proof (cases "chat cx")
  case None
  then show ?thesis
    using string_of_int_not_Nil [symmetric]
    by (cases "chat cy") (simp_all add: chat_key_def)
next
  case (Some i)
  then show ?thesis
    using string_of_int_not_Nil string_of_int_inj
    by (cases "chat cy") (auto simp: chat_key_def)
qed

subsection \<open>The example menu, rendered\<close>

lemma demo_builder:
  "builder demo_menu =
     \<lparr>menuId = ''abc123'',
      steps = [Static [Button (TextButton ''A'' ''eijdfwof:abc123:call:aaaaaa'')]
                 (Some \<lparr>handler_action = ''eijdfwof:abc123:call:aaaaaa'', callbackFn = Some 1\<rparr>),
               Static [ButtonRow []] None,
               Static [Button (TextButton ''B'' ''eijdfwof:abc123:call:bbbbbb'')]
                 (Some \<lparr>handler_action = ''eijdfwof:abc123:call:bbbbbb'', callbackFn = Some 3\<rparr>),
               Static [Button (TextButton ''C'' ''eijdfwof:abc123:call:cccccc'')]
                 (Some \<lparr>handler_action = ''eijdfwof:abc123:call:cccccc'', callbackFn = Some 2\<rparr>),
               Static [Button (TextButton ''D'' ''eijdfwof:abc123:call:dddddd'')]
                 (Some \<lparr>handler_action = ''eijdfwof:abc123:call:dddddd'', callbackFn = Some 4\<rparr>),
               Dynamic demo_dynamic]\<rparr>"
  by (simp add: demo_menu_def createMenu_def Menu_new_def demo_layout_def dynamic_def
        callback_def row_def LayoutBuilder_new_def buildAction_def MENU_PREFIX_def
        representation_def ACTION_REPRESENTATION_MAPPING_def Let_def)

lemma demo_dynamic_steps:
  "demo_dynamic ctx ''abc123'' d s =
     (Ok (if truthy d
          then [Static [Button (TextButton ''Z'' ''eijdfwof:abc123:call:zzzzzz'')]
                  (Some \<lparr>handler_action = ''eijdfwof:abc123:call:zzzzzz'', callbackFn = Some 0\<rparr>)]
          else [Static [Button (TextButton ''X'' ''eijdfwof:abc123:call:xxxxxx'')]
                  (Some \<lparr>handler_action = ''eijdfwof:abc123:call:xxxxxx'', callbackFn = Some 3\<rparr>),
                Static [Button (TextButton ''Y'' ''eijdfwof:abc123:call:yyyyyy'')]
                  (Some \<lparr>handler_action = ''eijdfwof:abc123:call:yyyyyy'', callbackFn = Some 1\<rparr>)]),
      s)"
  by (simp add: demo_dynamic_def callback_def LayoutBuilder_new_def buildAction_def
        MENU_PREFIX_def representation_def ACTION_REPRESENTATION_MAPPING_def Let_def)

lemma demo_build:
  "\<exists>b. build (builder demo_menu) ctx d s = (Ok b, s)
     \<and> dynamicHandlers b =
         (if truthy d
          then [\<lparr>handler_action = ''eijdfwof:abc123:call:zzzzzz'', callbackFn = Some 0\<rparr>]
          else [\<lparr>handler_action = ''eijdfwof:abc123:call:xxxxxx'', callbackFn = Some 3\<rparr>,
                \<lparr>handler_action = ''eijdfwof:abc123:call:yyyyyy'', callbackFn = Some 1\<rparr>])"
  by (simp add: demo_builder build_def await_def resolve_def demo_dynamic_steps
        static_step_def dynamic_step_def build_start_def build_finish_def)

lemma demo_buildLayout:
  assumes "nullish (menu_session (session w)) \<or> is_object (menu_session (session w))"
  shows "\<exists>l wa. buildLayout demo_menu ctx args w = (Ok l, wa)
      \<and> layout_text l = ''Menu''
      \<and> log wa = log w
      \<and> dynamicActionHandlersByActionByChatId wa ''abc123'' (chat_key ctx)
           = Some (handler_map
               (if truthy args
                then [\<lparr>handler_action = ''eijdfwof:abc123:call:zzzzzz'', callbackFn = Some 0\<rparr>]
                else [\<lparr>handler_action = ''eijdfwof:abc123:call:xxxxxx'', callbackFn = Some 3\<rparr>,
                      \<lparr>handler_action = ''eijdfwof:abc123:call:yyyyyy'', callbackFn = Some 1\<rparr>]))"
proof -
  from assms obtain sz where i: "initContext demo_menu (session w) = (Ok (), sz)"
    and obj: "is_object (menu_session sz)"
    using initContext_object by blast
  have "initStateFn demo_menu = None"
    by (simp add: demo_menu_def createMenu_def Menu_new_def)
  then obtain st where g: "getState demo_menu sz = (Ok st, sz)"
    using getState_after_initContext i by blast
  obtain b where b: "build (builder demo_menu) ctx args sz = (Ok b, sz)"
    and hs: "dynamicHandlers b =
         (if truthy args
          then [\<lparr>handler_action = ''eijdfwof:abc123:call:zzzzzz'', callbackFn = Some 0\<rparr>]
          else [\<lparr>handler_action = ''eijdfwof:abc123:call:xxxxxx'', callbackFn = Some 3\<rparr>,
                \<lparr>handler_action = ''eijdfwof:abc123:call:yyyyyy'', callbackFn = Some 1\<rparr>])"
    using demo_build [of ctx args sz] by (elim exE conjE)
  from obj obtain se where st: "store_loader args args sz = (Ok (), se)"
    using store_loader_object by blast
  have e: "onEnterFn demo_menu = None" and lo: "loaderFn demo_menu = demo_loader"
    by (simp_all add: demo_menu_def createMenu_def Menu_new_def)
  have "buildLayout demo_menu ctx args w =
      (Ok \<lparr>layout_text = ''Menu'', layout_keyboard = keyboard b, layout_parseMode = None\<rparr>,
       w\<lparr>session := se,
         dynamicActionHandlersByActionByChatId :=
           (dynamicActionHandlersByActionByChatId w)
             (''abc123'' := (dynamicActionHandlersByActionByChatId w ''abc123'')
                             (chat_key ctx \<mapsto> handler_map (dynamicHandlers b)))\<rparr>)"
    using i g b st
    by (simp add: buildLayout_def await_def on_session_def resolve_def e lo demo_loader_def
          race_timeout_def set_dynamic_handlers_def menu_id_demo)
  then show ?thesis
    by (simp add: hs)
qed

lemma hooks_keep_other: "hooks_keep_active other_menu ctx"
proof -
  have "steps_keep_active ctx (steps (builder other_menu))"
    by (auto intro!: steps_keep_active.intros
          simp: other_menu_def createMenu_def Menu_new_def callback_def LayoutBuilder_new_def
            Let_def)
  then show ?thesis
    by (simp add: hooks_keep_active_def keeps_active_def)
       (simp add: other_menu_def createMenu_def Menu_new_def demo_loader_def)
qed

subsection \<open>Resolving tokens at the example menu\<close>

lemma find_handler_cong:
  "dynamicActionHandlersByActionByChatId w = dynamicActionHandlersByActionByChatId w' \<Longrightarrow>
     find_handler m cx w = find_handler m cx w'"
  unfolding find_handler_def by (simp cong: option.case_cong)

lemma callback_data_demo: "callback_data (demo_ctx c tok i) = tok"
  by (simp add: callback_data_def demo_ctx_def)

lemma chat_key_demo:
  "chat_key (demo_ctx c tok i) = (case c of None \<Rightarrow> [] | Some n \<Rightarrow> string_of_int n)"
  by (simp add: chat_key_def demo_ctx_def)

lemma chat_key_examples:
  "chat_key (demo_ctx (Some 42) [] None) = ''42''"
  "chat_key (demo_ctx (Some (- 17)) [] None) = ''-17''"
  "chat_key (demo_ctx None [] None) = []"
  by (simp_all add: chat_key_demo string_of_int_examples)

lemma demo_static_X:
  "staticActionHandlersByAction demo_menu ''eijdfwof:abc123:call:xxxxxx'' = None"
proof -
  have "staticActionHandlersByAction demo_menu = handler_map (prepare (builder demo_menu))"
    by (simp add: demo_menu_def createMenu_def Menu_new_def)
  then show ?thesis
    by (simp add: demo_builder prepare_def List.map_filter_simps handler_map_def)
qed

lemma loader_demo: "loaderFn demo_menu ctx args s = (Ok r, s') \<Longrightarrow> lr_data r = args"
  by (auto simp: demo_menu_def createMenu_def Menu_new_def demo_loader_def)

lemma demo_first_render:
  assumes "nullish (menu_session (session w)) \<or> is_object (menu_session (session w))"
  shows "\<exists>dm. dynamicActionHandlersByActionByChatId (snd (render demo_menu ctx Undefined w))
            ''abc123'' (chat_key ctx) = Some dm
        \<and> dm ''eijdfwof:abc123:call:xxxxxx''
            = Some \<lparr>handler_action = ''eijdfwof:abc123:call:xxxxxx'', callbackFn = Some 3\<rparr>"
proof -
  obtain l wa where ok: "buildLayout demo_menu ctx Undefined w = (Ok l, wa)"
    and reg: "dynamicActionHandlersByActionByChatId wa ''abc123'' (chat_key ctx)
           = Some (handler_map
               (if truthy Undefined
                then [\<lparr>handler_action = ''eijdfwof:abc123:call:zzzzzz'', callbackFn = Some 0\<rparr>]
                else [\<lparr>handler_action = ''eijdfwof:abc123:call:xxxxxx'', callbackFn = Some 3\<rparr>,
                      \<lparr>handler_action = ''eijdfwof:abc123:call:yyyyyy'', callbackFn = Some 1\<rparr>]))"
    using demo_buildLayout [OF assms, of ctx Undefined] by (elim exE conjE)
  show ?thesis
    by (simp add: registry_after_render [OF ok] reg handler_map_def)
qed

lemma demo_world_fresh: "nullish (menu_session (session demo_world))"
  by (simp add: demo_world_def demo_session_def nullish_def)

lemma demo_render_object:
  assumes "nullish (menu_session (session w)) \<or> is_object (menu_session (session w))"
  shows "is_object (menu_session (session (snd (render demo_menu ctx args w))))"
proof -
  obtain l wa where ok: "buildLayout demo_menu ctx args w = (Ok l, wa)"
    using demo_buildLayout [OF assms, where ctx = ctx and args = args] by (elim exE conjE)
  then show ?thesis
    by (simp add: session_after_render [OF ok] buildLayout_session(1) [OF ok])
qed

section \<open>Errors on the render path, and the arguments of a refresh\<close>

lemma buildLayout_loader_settles:
  assumes "initContext m (session w) = (Ok (), sz)"
    and "getState m sz = (Ok st, sa)"
    and "(case onEnterFn m of None \<Rightarrow> resolve () | Some f \<Rightarrow> f ctx) sa = (Ok (), sb)"
  shows "loaderFn m ctx args sb = (Never, sc) \<Longrightarrow>
           buildLayout m ctx args w = (Err (Error_new (timeout_text m)), w\<lparr>session := sc\<rparr>)"
    and "loaderFn m ctx args sb = (Err e, sc) \<Longrightarrow>
           buildLayout m ctx args w = (Err e, w\<lparr>session := sc\<rparr>)"
  using assms
  by (simp_all add: buildLayout_def await_def on_session_def race_timeout_def)

lemma send_caught:
  assumes "send_try m ctx args w = (Err e, wa)" and "read_prop e ''message'' = Some msg"
  shows "send m ctx args w =
           ((case reply ctx (log wa @ [Reply msg None]) of
               Inl x \<Rightarrow> Err x
             | Inr i \<Rightarrow> Ok ()),
            wa\<lparr>log := log wa @ [Reply msg None]\<rparr>)"
  using assms
  by (simp add: send_def await_def call_reply_def resolve_def Let_def split: sum.splits)

text \<open>A thrown \<^verbatim>\<open>null\<close> or \<^verbatim>\<open>undefined\<close> leaves the \<^verbatim>\<open>catch\<close> of \<open>send\<close> as a \<^verbatim>\<open>TypeError\<close>, with no
  reply made.\<close>

lemma send_nullish_error:
  assumes "send_try m ctx args w = (Err e, wa)" and "e = Null \<or> e = Undefined"
  shows "send m ctx args w = (Err TypeError, wa)"
  using assms by (auto simp: send_def)

lemma layout_error_propagates:
  assumes "buildLayout m ctx args w = (Err e, wa)"
  shows "send_try m ctx args w = (Err e, wa)" and "render m ctx args w = (Err e, wa)"
    and "log wa = log w"
  using assms buildLayout_log [of m ctx args w]
  by (simp_all add: send_try_def render_def await_def)

lemma render_edit_fails:
  assumes "buildLayout m ctx args w = (Ok l, wa)"
    and "editMessageText ctx (log wa @ [EditMessageText (layout_text l) (layout_parseMode l)
                                           (layout_keyboard l)]) = Some e"
  shows "render m ctx args w =
           (Err e, wa\<lparr>log := log wa @ [EditMessageText (layout_text l) (layout_parseMode l)
                                          (layout_keyboard l)]\<rparr>)"
  using assms by (simp add: render_after_layout call_editMessageText_def Let_def)

lemma map_of_assign_props:
  "map_of (assign_props target src) = map_of target ++ map_of (rev src)"
  unfolding assign_props_def
proof (induction src arbitrary: target)
  case Nil
  then show ?case by simp
next
  case (Cons kv src)
  obtain k v where kv: "kv = (k, v)" by (cases kv)
  have "map_of (AList.update k v target) ++ map_of (rev src)
          = map_of target ++ (map_of (rev src @ [(k, v)]))"
    by (simp add: update_conv' map_add_def fun_eq_iff split: option.splits)
  then show ?case
    by (simp add: Cons.IH kv)
qed

lemma own_props_coalesce: "own_props (coalesce args (Obj [])) = own_props args"
  by (cases args) (simp_all add: coalesce_def nullish_def)

lemma refresh_args_object:
  assumes "is_object prev"
  shows "\<exists>ps. refresh_args prev args = Obj ps
           \<and> map_of ps = map_of (rev (own_props prev)) ++ map_of (rev (own_props args))"
  using assms
  by (simp add: refresh_args_def spread2_def map_of_assign_props own_props_coalesce)

lemma render_success:
  assumes "buildLayout m ctx a w = (Ok l, wa)"
  shows "\<exists>sb r sc. loaderFn m ctx a sb = (Ok r, sc) \<and> layout_text l = lr_text r"
    and "log (snd (render m ctx a w))
           = log w @ [EditMessageText (layout_text l) (layout_parseMode l) (layout_keyboard l)]"
    and "read_prop (menu_session (session (snd (render m ctx a w)))) ''activeMenuLoaderArgs''
           = Some a"
proof -
  from buildLayout_Ok_ex [OF assms] obtain sb r sc b sd where
    lo: "loaderFn m ctx a sb = (Ok r, sc)"
    and "build (builder m) ctx (lr_data r) sc = (Ok b, sd)"
    and l: "l = \<lparr>layout_text = lr_text r, layout_keyboard = keyboard b,
              layout_parseMode = lr_parseMode r\<rparr>"
    by (elim exE conjE)
  show "\<exists>sb r sc. loaderFn m ctx a sb = (Ok r, sc) \<and> layout_text l = lr_text r"
    using lo l by auto
  have "log wa = log w"
    using buildLayout_log [of m ctx a w] assms by simp
  then show "log (snd (render m ctx a w))
           = log w @ [EditMessageText (layout_text l) (layout_parseMode l) (layout_keyboard l)]"
    by (simp add: render_after_layout [OF assms] call_editMessageText_def Let_def)
  show "read_prop (menu_session (session (snd (render m ctx a w)))) ''activeMenuLoaderArgs''
           = Some a"
    using buildLayout_session(2) [OF assms] by (simp add: session_after_render [OF assms])
qed

section \<open>The claims\<close>

subsection \<open>C1: an interaction with a message that is not the active one\<close>

text \<open>
  Claim C1. When the pressed token resolves to a handler of the menu (static map first,
  then the dynamic map of the chat) whose action decodes to an action kind and to the
  menu's id, and the message id of the interaction differs from the session's
  \<^verbatim>\<open>activeMessageId\<close>, the middleware answers the callback query with an alert whose text is
  the \<^verbatim>\<open>staleErrorText\<close> of the menu's options when they give one, and
  \<open>The menu is stalled\<close> otherwise, and returns normally, also when the host rejects that
  answer. Nothing else changes: the callback function is not run, whatever it is, and the
  rest of the chain is not called.
\<close>

theorem stale_interaction_answered:
  assumes "find_handler m ctx w = Some h"
    and "parseAction (handler_action h) = Some p"
    and "action p \<noteq> None" and "sourceId p = menu_id m"
    and "callback_message_id ctx \<noteq> active_message (session w)"
  shows "middleware run m ctx nxt w
           = (Ok (),
              w\<lparr>log := log w @
                  [AnswerCallbackQuery
                     (Some (Str (case options m of
                                   None \<Rightarrow> ''The menu is stalled''
                                 | Some opts \<Rightarrow>
                                     (case staleErrorText opts of
                                        None \<Rightarrow> ''The menu is stalled''
                                      | Some t \<Rightarrow> t))))
                     True]\<rparr>)"
  using assms
  by (auto simp: middleware_def Let_def call_answerCallbackQuery_caught_def stale_text_def
        default_staleErrorText_def split: option.splits)

text \<open>The theorem at the example menus, with a button pressed on message 7 while message 1
  is the active one: at the menu whose options give the text \<open>Too old\<close>, and at the menu
  without options.\<close>

theorem stale_interaction_answered_witness:
  "middleware demo_run other_menu (demo_ctx (Some 42) ''eijdfwof:xyz789:call:eeeeee'' (Some 7))
       (resolve ()) active_world
     = (Ok (), active_world\<lparr>log := [AnswerCallbackQuery (Some (Str ''Too old'')) True]\<rparr>)
   \<and> middleware demo_run demo_menu (demo_ctx (Some 42) ''eijdfwof:abc123:call:aaaaaa'' (Some 7))
       (resolve ()) active_world
     = (Ok (), active_world\<lparr>log := [AnswerCallbackQuery (Some (Str ''The menu is stalled'')) True]\<rparr>)"
proof -
  let ?cx = "demo_ctx (Some 42) ''eijdfwof:xyz789:call:eeeeee'' (Some 7)"
  let ?ctx = "demo_ctx (Some 42) ''eijdfwof:abc123:call:aaaaaa'' (Some 7)"
  have stale: "callback_message_id ?cx \<noteq> active_message (session active_world)"
    "callback_message_id ?ctx \<noteq> active_message (session active_world)"
    by (simp_all add: callback_message_id_demo active_message_active_world)
  have empty: "log active_world = []"
    by (simp add: active_world_def)
  have "middleware demo_run other_menu ?cx (resolve ()) active_world
     = (Ok (), active_world\<lparr>log := [AnswerCallbackQuery (Some (Str ''Too old'')) True]\<rparr>)"
    using stale_interaction_answered [OF find_other_Back, of _ "Some 42" "Some 7" active_world
        demo_run "resolve ()"] parse_other_Back stale(1)
    by (simp add: menu_id_other options_other empty)
  moreover have "middleware demo_run demo_menu ?ctx (resolve ()) active_world
     = (Ok (), active_world\<lparr>log := [AnswerCallbackQuery (Some (Str ''The menu is stalled'')) True]\<rparr>)"
    using stale_interaction_answered [OF find_demo_A, of _ "Some 42" "Some 7" active_world
        demo_run "resolve ()"] parse_demo_A stale(2)
    by (simp add: menu_id_demo options_demo empty)
  ultimately show ?thesis by simp
qed

subsection \<open>C2: who writes the active message\<close>

text \<open>
  Against claim C2 as stated: the slot of a menu is the property of \<^verbatim>\<open>ctx.session._menu\<close>
  that the menu's id names, in the same object as \<^verbatim>\<open>activeMessageId\<close>. A menu constructed
  with the id \<open>activeMessageId\<close> has its slot in that property: on a session that has seen
  no menu its \<open>render\<close> succeeds and leaves in \<^verbatim>\<open>activeMessageId\<close>, which was \<^verbatim>\<open>undefined\<close>, the
  empty object that \<open>initContext\<close> has put there. The loader of that menu does not touch
  the session, and the menu has no other function of the developer.
\<close>

theorem render_writes_colliding_slot:
  "active_message (session demo_world) = Undefined
   \<and> fst (render clash_menu (demo_ctx (Some 42) [] None) Undefined demo_world) = Ok ()
   \<and> active_message
       (session (snd (render clash_menu (demo_ctx (Some 42) [] None) Undefined demo_world)))
       = Obj []"
  by (simp add: render_def buildLayout_def await_def on_session_def resolve_def
        initContext_def getState_def store_loader_def set_dynamic_handlers_def
        race_timeout_def build_def build_finish_def build_start_def
        call_editMessageText_def active_message_def coalesce_def nullish_def Let_def
        clash_menu_def Menu_new_def LayoutBuilder_new_def demo_loader_def
        demo_world_def demo_session_def demo_ctx_def)

text \<open>
  Claim C2, amended. For a menu whose id is not the name \<open>activeMessageId\<close>, as is every
  menu made by \<^verbatim>\<open>createMenu\<close>, whose id has six characters: \<open>render\<close>, which is what
  \<^verbatim>\<open>navigate\<close> of a callback's \<^verbatim>\<open>ctx.menu\<close> calls on the target menu and what \<^verbatim>\<open>refresh\<close> calls on
  the menu itself, leaves \<^verbatim>\<open>activeMessageId\<close> as it was, for every context, arguments and
  world, as long as the developer's own functions do not write it. For every menu, every
  \<open>send\<close> whose layout is built and whose message the host sends with id \<open>i\<close> returns
  normally and leaves \<^verbatim>\<open>activeMessageId\<close> equal to \<open>i\<close>, whatever it was before.
\<close>

theorem navigate_keeps_send_sets_active:
  "(hooks_keep_active other ctx \<and> menu_id other \<noteq> ''activeMessageId'' \<longrightarrow>
      active_message (session (snd (render other ctx args w))) = active_message (session w)
      \<and> active_message (session (snd (navigate (getCallbackActions m ctx) other args w)))
          = active_message (session w))
   \<and> (hooks_keep_active m ctx \<and> menu_id m \<noteq> ''activeMessageId'' \<longrightarrow>
      active_message (session (snd (refresh (getCallbackActions m ctx) args w)))
          = active_message (session w))
   \<and> (\<forall>l wa i. buildLayout m ctx args w = (Ok l, wa)
          \<and> reply ctx (log wa @ [Reply (Str (layout_text l))
                                      (Some (layout_parseMode l, layout_keyboard l))]) = Inr i
        \<longrightarrow> fst (send m ctx args w) = Ok ()
            \<and> active_message (session (snd (send m ctx args w))) = Num i)
   \<and> (length nid = 6 \<longrightarrow>
        menu_id (createMenu nid loader layout st opts onEnter) \<noteq> ''activeMessageId'')"
proof (intro conjI impI allI)
  assume "hooks_keep_active other ctx \<and> menu_id other \<noteq> ''activeMessageId''"
  then show "active_message (session (snd (render other ctx args w))) = active_message (session w)"
    by (simp add: render_keeps)
next
  assume "hooks_keep_active other ctx \<and> menu_id other \<noteq> ''activeMessageId''"
  then show "active_message (session (snd (navigate (getCallbackActions m ctx) other args w)))
          = active_message (session w)"
    by (simp add: getCallbackActions_def render_keeps)
next
  assume "hooks_keep_active m ctx \<and> menu_id m \<noteq> ''activeMessageId''"
  then show "active_message (session (snd (refresh (getCallbackActions m ctx) args w)))
          = active_message (session w)"
    by (simp add: getCallbackActions_def render_keeps split: option.splits)
next
  fix l wa i
  assume "buildLayout m ctx args w = (Ok l, wa)
          \<and> reply ctx (log wa @ [Reply (Str (layout_text l))
                                      (Some (layout_parseMode l, layout_keyboard l))]) = Inr i"
  then show "fst (send m ctx args w) = Ok ()"
    and "active_message (session (snd (send m ctx args w))) = Num i"
    by (simp_all add: send_success)
next
  assume "length nid = 6"
  then show "menu_id (createMenu nid loader layout st opts onEnter) \<noteq> ''activeMessageId''"
    by (auto simp: createMenu_def Menu_new_def)
qed

text \<open>The theorem at the example menus: navigating to the second menu while message 1 is
  active, and sending the first menu twice in a row, the host numbering the messages 1
  and 2.\<close>

theorem navigate_keeps_send_sets_active_witness:
  "active_message (session (snd (navigate
       (getCallbackActions demo_menu (demo_ctx (Some 42) ''eijdfwof:abc123:call:dddddd'' (Some 1)))
       other_menu Undefined active_world))) = Num 1
   \<and> active_message (session (snd (send demo_menu (demo_ctx (Some 42) [] None) Undefined
        demo_world))) = Num 1
   \<and> active_message (session (snd (send demo_menu (demo_ctx (Some 42) [] None) Undefined
        (snd (send demo_menu (demo_ctx (Some 42) [] None) Undefined demo_world))))) = Num 2"
proof -
  let ?cq = "demo_ctx (Some 42) ''eijdfwof:abc123:call:dddddd'' (Some 1)"
  let ?ctx = "demo_ctx (Some 42) [] None"
  let ?wa = "snd (send demo_menu ?ctx Undefined demo_world)"
  have "active_message (session (snd (navigate (getCallbackActions demo_menu ?cq)
       other_menu Undefined active_world))) = active_message (session active_world)"
    using navigate_keeps_send_sets_active [where other = other_menu and ctx = ?cq
        and m = demo_menu and w = active_world and args = Undefined, THEN conjunct1]
      hooks_keep_other [of ?cq]
    by (simp add: menu_id_other)
  then have nav: "active_message (session (snd (navigate (getCallbackActions demo_menu ?cq)
       other_menu Undefined active_world))) = Num 1"
    by (simp add: active_message_active_world)
  note fresh = demo_world_fresh
  obtain l wb where first: "buildLayout demo_menu ?ctx Undefined demo_world = (Ok l, wb)"
    and "log wb = log demo_world"
    using demo_buildLayout [OF disjI1 [OF fresh], where ctx = ?ctx and args = Undefined]
    by (elim exE conjE)
  then have id1: "reply ?ctx (log wb @ [Reply (Str (layout_text l))
                     (Some (layout_parseMode l, layout_keyboard l))]) = Inr 1"
    by (simp add: demo_ctx_def demo_world_def)
  have one: "active_message (session ?wa) = Num 1"
    using navigate_keeps_send_sets_active [where m = demo_menu and ctx = ?ctx
        and w = demo_world and args = Undefined, THEN conjunct2, THEN conjunct2, THEN conjunct1]
      first id1
    by blast
  have log1: "log ?wa = [Reply (Str (layout_text l)) (Some (layout_parseMode l, layout_keyboard l))]"
    using send_success(3) [OF first id1] by (simp add: demo_world_def)
  have sent: "is_object (menu_session (session ?wa))"
    using first id1 by (rule send_success(5))
  obtain l' wc where second: "buildLayout demo_menu ?ctx Undefined ?wa = (Ok l', wc)"
    and "log wc = log ?wa"
    using demo_buildLayout [OF disjI2 [OF sent], where ctx = ?ctx and args = Undefined]
    by (elim exE conjE)
  moreover have "length (log ?wa) = 1"
    by (simp add: log1)
  ultimately have id2: "reply ?ctx (log wc @ [Reply (Str (layout_text l'))
                     (Some (layout_parseMode l', layout_keyboard l'))]) = Inr 2"
    by (simp add: demo_ctx_def)
  have two: "active_message (session (snd (send demo_menu ?ctx Undefined ?wa))) = Num 2"
    using navigate_keeps_send_sets_active [where m = demo_menu and ctx = ?ctx
        and w = ?wa and args = Undefined, THEN conjunct2, THEN conjunct2, THEN conjunct1]
      second id2
    by blast
  from nav one two show ?thesis by simp
qed

subsection \<open>C3: decoding an encoded token\<close>

text \<open>
  Claim C3. For every action kind, every non-empty owner menu id without \<open>:\<close> and every
  optional instance id that, when given, is non-empty and without \<open>:\<close>, \<open>parseAction\<close> of
  \<open>buildAction\<close> is exactly the triple that was encoded. In particular the token that the
  builder's \<open>callback\<close> method mints on a builder of menu \<open>m\<close> (the menu's own builder or the
  fresh one of a dynamic step, both carrying the menu's id), with an instance id of that
  kind, is the callback data of the button and the action of its handler, and it decodes
  to the action kind \<open>Callback\<close>, the owner \<open>menu_id m\<close> and that instance id.
\<close>

theorem token_roundtrip:
  assumes "sid \<noteq> []" and "CHR '':'' \<notin> set sid"
    and "\<forall>t. tid = Some t \<longrightarrow> t \<noteq> [] \<and> CHR '':'' \<notin> set t"
    and "menuId b = menu_id m" and "menu_id m \<noteq> []" and "CHR '':'' \<notin> set (menu_id m)"
    and "nid \<noteq> []" and "CHR '':'' \<notin> set nid"
  shows "parseAction (buildAction a sid tid)
           = Some \<lparr>action = Some a, sourceId = sid, targetId = tid\<rparr>
       \<and> (\<exists>tok. steps (callback label fn nid b)
              = steps b @ [Static [Button (TextButton label tok)]
                             (Some \<lparr>handler_action = tok, callbackFn = fn\<rparr>)]
            \<and> parseAction tok
              = Some \<lparr>action = Some Callback, sourceId = menu_id m, targetId = Some nid\<rparr>)"
proof
  show "parseAction (buildAction a sid tid)
           = Some \<lparr>action = Some a, sourceId = sid, targetId = tid\<rparr>"
    using assms(1-3) by (rule parseAction_buildAction)
next
  have "parseAction (buildAction Callback (menuId b) (Some nid))
          = Some \<lparr>action = Some Callback, sourceId = menuId b, targetId = Some nid\<rparr>"
    using assms(4-8) by (intro parseAction_buildAction) auto
  then show "\<exists>tok. steps (callback label fn nid b)
              = steps b @ [Static [Button (TextButton label tok)]
                             (Some \<lparr>handler_action = tok, callbackFn = fn\<rparr>)]
            \<and> parseAction tok
              = Some \<lparr>action = Some Callback, sourceId = menu_id m, targetId = Some nid\<rparr>"
    using assms(4) by (auto simp: callback_def Let_def)
qed

text \<open>The theorem at the menu id \<open>abc123\<close>, the instance id \<open>x_-9Zq\<close> and the builder that
  \<open>createMenu\<close> hands to the layout function.\<close>

theorem token_roundtrip_witness:
  "parseAction (buildAction Callback ''abc123'' (Some ''x_-9Zq''))
     = Some \<lparr>action = Some Callback, sourceId = ''abc123'', targetId = Some ''x_-9Zq''\<rparr>
   \<and> (\<exists>tok. steps (callback ''Click me'' (Some ()) ''x_-9Zq'' (LayoutBuilder_new ''abc123''))
          = steps (LayoutBuilder_new ''abc123'') @
              [Static [Button (TextButton ''Click me'' tok)]
                 (Some \<lparr>handler_action = tok, callbackFn = Some ()\<rparr>)]
        \<and> parseAction tok
          = Some \<lparr>action = Some Callback,
                  sourceId = menu_id (createMenu ''abc123'' (\<lambda>ctx args s. (Never, s)) (\<lambda>b. b)
                                        None None None :: unit Menu),
                  targetId = Some ''x_-9Zq''\<rparr>)"
  using token_roundtrip [where sid = "''abc123''" and tid = "Some ''x_-9Zq''"
      and b = "LayoutBuilder_new ''abc123''"
      and m = "createMenu ''abc123'' (\<lambda>ctx args s. (Never, s)) (\<lambda>b. b) None None None :: unit Menu"
      and nid = "''x_-9Zq''" and a = Callback and label = "''Click me''" and fn = "Some ()"]
  by (simp add: createMenu_def Menu_new_def LayoutBuilder_new_def)

subsection \<open>C4: which strings decode to null\<close>




subsection \<open>C5: a dynamic section after a static button\<close>

text \<open>
  Claim C5. Take a builder of menu \<open>mid\<close> with a static one-button step followed by a
  dynamic step, whose function returns normally. When the function adds the buttons \<open>X\<close>
  and \<open>Y\<close> with \<open>callback\<close> and no row break, \<open>build\<close> gives the one row \<open>[A, X, Y]\<close>,
  the handler of \<open>A\<close> as the only static handler and the handlers of \<open>X\<close> and \<open>Y\<close> as the
  dynamic handlers. Whatever the function adds: the first row of the nested build goes
  onto the row of \<open>A\<close>, its other rows follow, and the dynamic handlers of the outer build
  are the static handlers of the nested build followed by its dynamic ones. For every
  builder, the static handlers of a build are those of the top-level static steps
  (\<open>prepare\<close>), so no handler of a dynamic step is among them.
\<close>

theorem dynamic_section_splices:
  assumes "dynamicFn ctx mid d s = (Ok nested, sa)"
  shows "(nested = steps (callback ly fy iy (callback lx fx ix (LayoutBuilder_new mid))) \<longrightarrow>
            build (dynamic dynamicFn (callback la fa ia (LayoutBuilder_new mid))) ctx d s
              = (Ok \<lparr>keyboard = [[TextButton la (buildAction Callback mid (Some ia)),
                                  TextButton lx (buildAction Callback mid (Some ix)),
                                  TextButton ly (buildAction Callback mid (Some iy))]],
                     staticHandlers =
                       [\<lparr>handler_action = buildAction Callback mid (Some ia), callbackFn = fa\<rparr>],
                     dynamicHandlers =
                       [\<lparr>handler_action = buildAction Callback mid (Some ix), callbackFn = fx\<rparr>,
                        \<lparr>handler_action = buildAction Callback mid (Some iy), callbackFn = fy\<rparr>]\<rparr>,
                 sa))
       \<and> (\<forall>nb sb a ha. build \<lparr>menuId = mid, steps = nested\<rparr> ctx d sa = (Ok nb, sb) \<longrightarrow>
            build \<lparr>menuId = mid, steps = [Static [Button a] ha, Dynamic dynamicFn]\<rparr> ctx d s
              = (Ok \<lparr>keyboard = filter (\<lambda>r. r \<noteq> [])
                          (case keyboard nb of [] \<Rightarrow> [[a]] | r # restRows \<Rightarrow> (a # r) # restRows),
                     staticHandlers = (case ha of None \<Rightarrow> [] | Some h \<Rightarrow> [h]),
                     dynamicHandlers = staticHandlers nb @ dynamicHandlers nb\<rparr>, sb))
       \<and> (\<forall>b r s'. build b ctx d s = (Ok r, s') \<longrightarrow> staticHandlers r = prepare b)"
proof (intro conjI impI allI)
  assume n: "nested = steps (callback ly fy iy (callback lx fx ix (LayoutBuilder_new mid)))"
  let ?X = "TextButton lx (buildAction Callback mid (Some ix))"
  let ?Y = "TextButton ly (buildAction Callback mid (Some iy))"
  let ?hx = "\<lparr>handler_action = buildAction Callback mid (Some ix), callbackFn = fx\<rparr>"
  let ?hy = "\<lparr>handler_action = buildAction Callback mid (Some iy), callbackFn = fy\<rparr>"
  have nested: "nested = [Static [Button ?X] (Some ?hx), Static [Button ?Y] (Some ?hy)]"
    using n by (simp add: callback_def LayoutBuilder_new_def Let_def)
  have outer: "dynamic dynamicFn (callback la fa ia (LayoutBuilder_new mid))
      = \<lparr>menuId = mid,
         steps = [Static [Button (TextButton la (buildAction Callback mid (Some ia)))]
                    (Some \<lparr>handler_action = buildAction Callback mid (Some ia), callbackFn = fa\<rparr>),
                  Dynamic dynamicFn]\<rparr>"
    by (simp add: dynamic_def callback_def LayoutBuilder_new_def Let_def)
  have nb: "build \<lparr>menuId = mid, steps = nested\<rparr> ctx d sa
      = (Ok \<lparr>keyboard = [[?X, ?Y]], staticHandlers = [?hx, ?hy], dynamicHandlers = []\<rparr>, sa)"
    unfolding nested using build_static_only [of mid ?X "Some ?hx" ?Y "Some ?hy" ctx d sa]
    by simp
  show "build (dynamic dynamicFn (callback la fa ia (LayoutBuilder_new mid))) ctx d s
              = (Ok \<lparr>keyboard = [[TextButton la (buildAction Callback mid (Some ia)), ?X, ?Y]],
                     staticHandlers =
                       [\<lparr>handler_action = buildAction Callback mid (Some ia), callbackFn = fa\<rparr>],
                     dynamicHandlers = [?hx, ?hy]\<rparr>,
                 sa)"
    unfolding outer using build_static_then_dynamic [of dynamicFn ctx mid d s nested sa, OF assms nb] by simp
next
  fix nb sb a ha
  assume "build \<lparr>menuId = mid, steps = nested\<rparr> ctx d sa = (Ok nb, sb)"
  then show "build \<lparr>menuId = mid, steps = [Static [Button a] ha, Dynamic dynamicFn]\<rparr> ctx d s
              = (Ok \<lparr>keyboard = filter (\<lambda>r. r \<noteq> [])
                          (case keyboard nb of [] \<Rightarrow> [[a]] | r # restRows \<Rightarrow> (a # r) # restRows),
                     staticHandlers = (case ha of None \<Rightarrow> [] | Some h \<Rightarrow> [h]),
                     dynamicHandlers = staticHandlers nb @ dynamicHandlers nb\<rparr>, sb)"
    using build_static_then_dynamic [of dynamicFn ctx mid d s nested sa nb sb a ha, OF assms] by simp
next
  fix b r s'
  assume "build b ctx d s = (Ok r, s')"
  then show "staticHandlers r = prepare b" by (rule staticHandlers_build)
qed


text \<open>The theorem at the dynamic section of the example, with loader data \<open>undefined\<close>.\<close>

theorem dynamic_section_splices_witness:
  "build (dynamic demo_dynamic (callback ''A'' (Some 0) ''aaaaaa'' (LayoutBuilder_new ''abc123'')))
     (demo_ctx (Some 42) [] None) Undefined demo_session
   = (Ok \<lparr>keyboard = [[TextButton ''A'' ''eijdfwof:abc123:call:aaaaaa'',
                       TextButton ''X'' ''eijdfwof:abc123:call:xxxxxx'',
                       TextButton ''Y'' ''eijdfwof:abc123:call:yyyyyy'']],
          staticHandlers = [\<lparr>handler_action = ''eijdfwof:abc123:call:aaaaaa'', callbackFn = Some 0\<rparr>],
          dynamicHandlers = [\<lparr>handler_action = ''eijdfwof:abc123:call:xxxxxx'', callbackFn = Some 3\<rparr>,
                             \<lparr>handler_action = ''eijdfwof:abc123:call:yyyyyy'', callbackFn = Some 1\<rparr>]\<rparr>,
      demo_session)"
  using dynamic_section_splices [where dynamicFn = demo_dynamic
      and ctx = "demo_ctx (Some 42) [] None" and mid = "''abc123''" and d = Undefined
      and s = demo_session and sa = demo_session
      and nested = "steps (callback ''Y'' (Some 1) ''yyyyyy''
                        (callback ''X'' (Some 3) ''xxxxxx'' (LayoutBuilder_new ''abc123'')))"
      and ly = "''Y''" and fy = "Some 1" and iy = "''yyyyyy''"
      and lx = "''X''" and fx = "Some 3" and ix = "''xxxxxx''"
      and la = "''A''" and fa = "Some 0" and ia = "''aaaaaa''", THEN conjunct1]
  by (simp add: demo_dynamic_def buildAction_def MENU_PREFIX_def representation_def
        ACTION_REPRESENTATION_MAPPING_def)

subsection \<open>C6: the dynamic handlers of a chat are replaced by each render\<close>

text \<open>
  Claim C6. Whenever \<open>buildLayout\<close> returns a layout, which is the first half of every
  \<open>render\<close> and every \<open>send\<close>, the menu's dynamic handler map for the chat of the context
  is a new map holding exactly the dynamic handlers of that build of the layout (the
  build whose keyboard is shown), the maps of the other chats and menus are as before,
  and the rest of \<open>render\<close> and of \<open>send\<close> does not touch any of them. So a token that is
  neither a static one nor among the handlers of this build does not resolve afterwards
  for that chat, whatever an earlier render had registered. The static map is a field of
  the menu set by its constructor and written nowhere else: a static token resolves to
  the same handler before and after. The new map sends an action to the last handler of
  the build that has it.
\<close>

theorem dynamic_handlers_replaced:
  assumes "buildLayout m ctx args w = (Ok l, wa)"
  shows "\<exists>sb r sc b sd.
           loaderFn m ctx args sb = (Ok r, sc)
         \<and> build (builder m) ctx (lr_data r) sc = (Ok b, sd)
         \<and> layout_keyboard l = keyboard b
         \<and> dynamicActionHandlersByActionByChatId wa (menu_id m) (chat_key ctx)
             = Some (handler_map (dynamicHandlers b))
         \<and> dom (handler_map (dynamicHandlers b)) = handler_action ` set (dynamicHandlers b)
         \<and> (\<forall>i k. (i, k) \<noteq> (menu_id m, chat_key ctx) \<longrightarrow>
               dynamicActionHandlersByActionByChatId wa i k
                 = dynamicActionHandlersByActionByChatId w i k)
         \<and> dynamicActionHandlersByActionByChatId (snd (render m ctx args w))
             = dynamicActionHandlersByActionByChatId wa
         \<and> dynamicActionHandlersByActionByChatId (snd (send m ctx args w))
             = dynamicActionHandlersByActionByChatId wa
         \<and> (\<forall>cx. chat_key cx = chat_key ctx
                  \<and> staticActionHandlersByAction m (callback_data cx) = None
                  \<and> callback_data cx \<notin> handler_action ` set (dynamicHandlers b)
                \<longrightarrow> find_handler m cx wa = None)
         \<and> (\<forall>cx h. staticActionHandlersByAction m (callback_data cx) = Some h \<longrightarrow>
                find_handler m cx w = Some h \<and> find_handler m cx wa = Some h)
         \<and> handler_map (dynamicHandlers b)
             = map_of (map (\<lambda>h. (handler_action h, h)) (rev (dynamicHandlers b)))"
proof -
  from buildLayout_Ok_ex [OF assms] obtain sb r sc b sd where
    lo: "loaderFn m ctx args sb = (Ok r, sc)"
    and b: "build (builder m) ctx (lr_data r) sc = (Ok b, sd)"
    and l: "l = \<lparr>layout_text = lr_text r, layout_keyboard = keyboard b,
              layout_parseMode = lr_parseMode r\<rparr>"
    and reg: "dynamicActionHandlersByActionByChatId wa =
                  (dynamicActionHandlersByActionByChatId w)
                    (menu_id m := (dynamicActionHandlersByActionByChatId w (menu_id m))
                                    (chat_key ctx \<mapsto> handler_map (dynamicHandlers b)))"
    by (elim exE conjE)
  have unresolvable: "find_handler m cx wa = None"
    if "chat_key cx = chat_key ctx \<and> staticActionHandlersByAction m (callback_data cx) = None
          \<and> callback_data cx \<notin> handler_action ` set (dynamicHandlers b)" for cx
  proof -
    from that have "callback_data cx \<notin> dom (handler_map (dynamicHandlers b))"
      by (simp add: dom_handler_map)
    then have "handler_map (dynamicHandlers b) (callback_data cx) = None"
      by blast
    with that show ?thesis
      by (simp add: find_handler_def reg)
  qed
  show ?thesis
    apply (rule exI [of _ sb], rule exI [of _ r], rule exI [of _ sc], rule exI [of _ b],
        rule exI [of _ sd])
    using lo b l reg unresolvable registry_after_render [OF assms] registry_after_send [OF assms]
    by (auto simp: dom_handler_map find_handler_def handler_map_map_of [symmetric])
qed

text \<open>The theorem at the example menu: the button \<open>X\<close> of a first render resolves, and no
  longer does after a second render whose dynamic section makes only \<open>Z\<close>.\<close>

theorem dynamic_handlers_replaced_witness:
  "find_handler demo_menu (demo_ctx (Some 42) ''eijdfwof:abc123:call:xxxxxx'' (Some 1))
     (snd (render demo_menu (demo_ctx (Some 42) [] None) Undefined demo_world))
     = Some \<lparr>handler_action = ''eijdfwof:abc123:call:xxxxxx'', callbackFn = Some 3\<rparr>
   \<and> find_handler demo_menu (demo_ctx (Some 42) ''eijdfwof:abc123:call:xxxxxx'' (Some 1))
     (snd (render demo_menu (demo_ctx (Some 42) [] None) (Bool True)
        (snd (render demo_menu (demo_ctx (Some 42) [] None) Undefined demo_world))))
     = None"
proof -
  let ?ctx = "demo_ctx (Some 42) [] None"
  let ?cx = "demo_ctx (Some 42) ''eijdfwof:abc123:call:xxxxxx'' (Some 1)"
  let ?w = "snd (render demo_menu ?ctx Undefined demo_world)"
  have key: "chat_key ?cx = chat_key ?ctx"
    by (simp add: chat_key_demo)
  from demo_first_render [OF disjI1 [OF demo_world_fresh], where ctx = ?ctx] obtain dm where
    "dynamicActionHandlersByActionByChatId ?w ''abc123'' (chat_key ?ctx) = Some dm"
    and "dm ''eijdfwof:abc123:call:xxxxxx''
            = Some \<lparr>handler_action = ''eijdfwof:abc123:call:xxxxxx'', callbackFn = Some 3\<rparr>"
    by blast
  then have before: "find_handler demo_menu ?cx ?w
     = Some \<lparr>handler_action = ''eijdfwof:abc123:call:xxxxxx'', callbackFn = Some 3\<rparr>"
    unfolding find_handler_def key callback_data_demo demo_static_X menu_id_demo by simp
  have "is_object (menu_session (session ?w))"
    using demo_world_fresh by (intro demo_render_object disjI1)
  then obtain l wa where ok: "buildLayout demo_menu ?ctx (Bool True) ?w = (Ok l, wa)"
    using demo_buildLayout [where w = ?w and ctx = ?ctx and args = "Bool True"] by blast
  from dynamic_handlers_replaced [OF ok] obtain sb r sc b sd where
    lo: "loaderFn demo_menu ?ctx (Bool True) sb = (Ok r, sc)"
    and b: "build (builder demo_menu) ?ctx (lr_data r) sc = (Ok b, sd)"
    and gone: "\<forall>cx. chat_key cx = chat_key ?ctx
                  \<and> staticActionHandlersByAction demo_menu (callback_data cx) = None
                  \<and> callback_data cx \<notin> handler_action ` set (dynamicHandlers b)
                \<longrightarrow> find_handler demo_menu cx wa = None"
    and same: "dynamicActionHandlersByActionByChatId (snd (render demo_menu ?ctx (Bool True) ?w))
             = dynamicActionHandlersByActionByChatId wa"
    by (elim exE conjE) blast
  have "lr_data r = Bool True"
    using lo by (rule loader_demo)
  with b demo_build [of ?ctx "Bool True" sc]
  have "dynamicHandlers b
      = [\<lparr>handler_action = ''eijdfwof:abc123:call:zzzzzz'', callbackFn = Some 0\<rparr>]"
    by auto
  then have fresh: "callback_data ?cx \<notin> handler_action ` set (dynamicHandlers b)"
    by (simp add: callback_data_demo)
  have static: "staticActionHandlersByAction demo_menu (callback_data ?cx) = None"
    by (simp add: callback_data_demo demo_static_X)
  have "find_handler demo_menu ?cx wa = None"
    by (rule gone [rule_format]) (simp only: key fresh static simp_thms)
  then have "find_handler demo_menu ?cx (snd (render demo_menu ?ctx (Bool True) ?w)) = None"
    using find_handler_cong [OF same] by simp
  with before show ?thesis by simp
qed

subsection \<open>C7: errors of a render\<close>

text \<open>
  Against claim C7 as stated: \<open>render\<close>, the function behind \<^verbatim>\<open>navigate\<close>, has no
  \<^verbatim>\<open>try\<close>. When the loader of the menu throws, \<open>render\<close> rejects with that error and no
  host call is made. And \<open>send\<close> itself rejects when the host refuses the reply of its
  \<^verbatim>\<open>catch\<close> block as it refused the first one.
\<close>

theorem navigate_does_not_catch:
  "fst (render failing_menu (demo_ctx (Some 42) [] None) Undefined demo_world)
     = Err (Error_new ''loader failed'')
   \<and> log (snd (render failing_menu (demo_ctx (Some 42) [] None) Undefined demo_world)) = []
   \<and> fst (send demo_menu offline_ctx Undefined demo_world) = Err (Error_new ''Forbidden'')"
proof -
  have init: "initStateFn failing_menu = None" and enter: "onEnterFn failing_menu = None"
    and lo: "loaderFn failing_menu = (\<lambda>ctx args s. (Err (Error_new ''loader failed''), s))"
    by (simp_all add: failing_menu_def createMenu_def Menu_new_def)
  note fresh = demo_world_fresh
  obtain sz where i: "initContext failing_menu (session demo_world) = (Ok (), sz)"
    using initContext_object [of "session demo_world" failing_menu] fresh by blast
  obtain st where "getState failing_menu sz = (Ok st, sz)"
    using getState_after_initContext [OF init i] by blast
  with i have "buildLayout failing_menu (demo_ctx (Some 42) [] None) Undefined demo_world
      = (Err (Error_new ''loader failed''), demo_world\<lparr>session := sz\<rparr>)"
    by (rule buildLayout_loader_settles(2)) (simp_all add: enter lo resolve_def)
  then have r: "render failing_menu (demo_ctx (Some 42) [] None) Undefined demo_world
      = (Err (Error_new ''loader failed''), demo_world\<lparr>session := sz\<rparr>)"
    by (rule layout_error_propagates(2))
  have refused: "reply offline_ctx k = Inl (Error_new ''Forbidden'')" for k
    by (simp add: offline_ctx_def)
  have msg: "read_prop (Error_new ''Forbidden'') ''message'' = Some (Str ''Forbidden'')"
    by (simp add: Error_new_def)
  obtain l wa where ok: "buildLayout demo_menu offline_ctx Undefined demo_world = (Ok l, wa)"
    using demo_buildLayout [OF disjI1 [OF fresh], where ctx = offline_ctx and args = Undefined]
    by (elim exE conjE)
  have "send_try demo_menu offline_ctx Undefined demo_world
      = (Err (Error_new ''Forbidden''),
         wa\<lparr>log := log wa @ [Reply (Str (layout_text l))
                                (Some (layout_parseMode l, layout_keyboard l))]\<rparr>)"
    by (simp add: send_try_after_layout [OF ok] refused)
  then have "fst (send demo_menu offline_ctx Undefined demo_world) = Err (Error_new ''Forbidden'')"
    using msg by (simp add: send_caught refused)
  with r show ?thesis
    by (simp add: demo_world_def)
qed

text \<open>
  Claim C7, amended. \<open>send\<close> catches every error of its \<^verbatim>\<open>try\<close> block, that is, of building
  the layout (a loader that throws, the loader's timeout, a failing dynamic section) and
  of the first reply; when the thrown value is not \<^verbatim>\<open>null\<close> or \<^verbatim>\<open>undefined\<close>, so that its
  \<^verbatim>\<open>message\<close> can be read, \<open>send\<close> replies with that message and nothing else, and rejects
  only with the rejection of that second reply. \<open>render\<close>, which is what \<^verbatim>\<open>navigate\<close> calls,
  catches nothing: an error of building the layout is its own result, with no host call
  made, and so is a rejected \<^verbatim>\<open>editMessageText\<close>. A loader that has not settled when the
  timer fires makes the layout fail with an error whose message is the timeout text.
\<close>

theorem send_catches_render_propagates:
  "(\<forall>e wa msg. send_try m ctx args w = (Err e, wa) \<and> read_prop e ''message'' = Some msg \<longrightarrow>
       send m ctx args w =
         ((case reply ctx (log wa @ [Reply msg None]) of
             Inl x \<Rightarrow> Err x
           | Inr i \<Rightarrow> Ok ()),
          wa\<lparr>log := log wa @ [Reply msg None]\<rparr>))
   \<and> (\<forall>e wa. buildLayout m ctx args w = (Err e, wa) \<longrightarrow>
         send_try m ctx args w = (Err e, wa) \<and> render m ctx args w = (Err e, wa)
         \<and> log wa = log w)
   \<and> (\<forall>l wa e. buildLayout m ctx args w = (Ok l, wa)
          \<and> reply ctx (log wa @ [Reply (Str (layout_text l))
                                      (Some (layout_parseMode l, layout_keyboard l))]) = Inl e
        \<longrightarrow> send_try m ctx args w =
              (Err e, wa\<lparr>log := log wa @ [Reply (Str (layout_text l))
                                             (Some (layout_parseMode l, layout_keyboard l))]\<rparr>))
   \<and> (\<forall>l wa e. buildLayout m ctx args w = (Ok l, wa)
          \<and> editMessageText ctx (log wa @ [EditMessageText (layout_text l) (layout_parseMode l)
                                                 (layout_keyboard l)]) = Some e
        \<longrightarrow> render m ctx args w =
              (Err e, wa\<lparr>log := log wa @ [EditMessageText (layout_text l) (layout_parseMode l)
                                             (layout_keyboard l)]\<rparr>))
   \<and> (\<forall>sz st sa sb sc. initContext m (session w) = (Ok (), sz)
          \<and> getState m sz = (Ok st, sa)
          \<and> (case onEnterFn m of None \<Rightarrow> resolve () | Some f \<Rightarrow> f ctx) sa = (Ok (), sb)
          \<and> loaderFn m ctx args sb = (Never, sc)
        \<longrightarrow> buildLayout m ctx args w
              = (Err (Error_new (timeout_text m)), w\<lparr>session := sc\<rparr>))
   \<and> read_prop (Error_new label) ''message'' = Some (Str label)
   \<and> navigate (getCallbackActions other ctx) m args w = render m ctx args w"
proof (intro conjI allI impI)
  fix e wa msg
  assume "send_try m ctx args w = (Err e, wa) \<and> read_prop e ''message'' = Some msg"
  then show "send m ctx args w =
         ((case reply ctx (log wa @ [Reply msg None]) of
             Inl x \<Rightarrow> Err x
           | Inr i \<Rightarrow> Ok ()),
          wa\<lparr>log := log wa @ [Reply msg None]\<rparr>)"
    by (simp add: send_caught)
next
  fix e wa
  assume "buildLayout m ctx args w = (Err e, wa)"
  then show "send_try m ctx args w = (Err e, wa)" and "render m ctx args w = (Err e, wa)"
    and "log wa = log w"
    by (rule layout_error_propagates)+
next
  fix l wa e
  assume "buildLayout m ctx args w = (Ok l, wa)
          \<and> reply ctx (log wa @ [Reply (Str (layout_text l))
                                      (Some (layout_parseMode l, layout_keyboard l))]) = Inl e"
  then show "send_try m ctx args w =
              (Err e, wa\<lparr>log := log wa @ [Reply (Str (layout_text l))
                                             (Some (layout_parseMode l, layout_keyboard l))]\<rparr>)"
    by (simp add: send_try_after_layout)
next
  fix l wa e
  assume "buildLayout m ctx args w = (Ok l, wa)
          \<and> editMessageText ctx (log wa @ [EditMessageText (layout_text l) (layout_parseMode l)
                                                 (layout_keyboard l)]) = Some e"
  then show "render m ctx args w =
              (Err e, wa\<lparr>log := log wa @ [EditMessageText (layout_text l) (layout_parseMode l)
                                             (layout_keyboard l)]\<rparr>)"
    by (simp add: render_edit_fails)
next
  fix sz st sa sb sc
  assume "initContext m (session w) = (Ok (), sz)
          \<and> getState m sz = (Ok st, sa)
          \<and> (case onEnterFn m of None \<Rightarrow> resolve () | Some f \<Rightarrow> f ctx) sa = (Ok (), sb)
          \<and> loaderFn m ctx args sb = (Never, sc)"
  then show "buildLayout m ctx args w = (Err (Error_new (timeout_text m)), w\<lparr>session := sc\<rparr>)"
    by (simp add: buildLayout_loader_settles(1))
next
  show "read_prop (Error_new label) ''message'' = Some (Str label)"
    by (simp add: Error_new_def)
  show "navigate (getCallbackActions other ctx) m args w = render m ctx args w"
    by (simp add: getCallbackActions_def)
qed

text \<open>The theorem at the menu whose loader never settles: \<open>send\<close> returns normally, and
  the one host call is the reply with the configured timeout text.\<close>

theorem send_catches_render_propagates_witness:
  "fst (send stuck_menu (demo_ctx (Some 42) [] None) Undefined demo_world) = Ok ()
   \<and> log (snd (send stuck_menu (demo_ctx (Some 42) [] None) Undefined demo_world))
       = [Reply (Str ''Too slow'') None]"
proof -
  let ?ctx = "demo_ctx (Some 42) [] None"
  note facts = send_catches_render_propagates [of stuck_menu ?ctx Undefined demo_world
      "''Too slow''" stuck_menu]
  have init: "initStateFn stuck_menu = None" and enter: "onEnterFn stuck_menu = None"
    and lo: "loaderFn stuck_menu = (\<lambda>ctx args s. (Never, s))"
    by (simp_all add: stuck_menu_def createMenu_def Menu_new_def)
  have too_slow: "timeout_text stuck_menu = ''Too slow''"
    by (simp add: timeout_text_def stuck_menu_def createMenu_def Menu_new_def)
  obtain sz where i: "initContext stuck_menu (session demo_world) = (Ok (), sz)"
    using initContext_object [of "session demo_world" stuck_menu] demo_world_fresh by blast
  obtain st where g: "getState stuck_menu sz = (Ok st, sz)"
    using getState_after_initContext [OF init i] by blast
  have "buildLayout stuck_menu ?ctx Undefined demo_world
      = (Err (Error_new (timeout_text stuck_menu)), demo_world\<lparr>session := sz\<rparr>)"
    by (rule facts [THEN conjunct2, THEN conjunct2, THEN conjunct2, THEN conjunct2,
          THEN conjunct1, rule_format, of sz st sz sz sz])
       (simp add: i g enter lo resolve_def)
  then have "send_try stuck_menu ?ctx Undefined demo_world
      = (Err (Error_new ''Too slow''), demo_world\<lparr>session := sz\<rparr>)"
    using facts [THEN conjunct2, THEN conjunct1, rule_format,
        of "Error_new ''Too slow''" "demo_world\<lparr>session := sz\<rparr>"]
    by (simp add: too_slow)
  moreover have "read_prop (Error_new ''Too slow'') ''message'' = Some (Str ''Too slow'')"
    using facts by (elim conjE)
  ultimately have "send stuck_menu ?ctx Undefined demo_world
      = ((case reply ?ctx (log (demo_world\<lparr>session := sz\<rparr>) @ [Reply (Str ''Too slow'') None]) of
             Inl x \<Rightarrow> Err x
           | Inr i \<Rightarrow> Ok ()),
          demo_world\<lparr>session := sz,
                      log := log (demo_world\<lparr>session := sz\<rparr>) @ [Reply (Str ''Too slow'') None]\<rparr>)"
    using facts [THEN conjunct1, rule_format,
        of "Error_new ''Too slow''" "demo_world\<lparr>session := sz\<rparr>" "Str ''Too slow''"]
    by simp
  then show ?thesis
    by (simp add: demo_ctx_def demo_world_def)
qed

subsection \<open>C8: an error of the callback function\<close>

text \<open>
  Claim C8 holds for every thrown value whose \<^verbatim>\<open>message\<close> can be read and fails for a
  thrown \<^verbatim>\<open>null\<close> or \<^verbatim>\<open>undefined\<close> (\<^verbatim>\<open>throw null\<close>, a rejection without a reason). When the
  interaction is live and the matched handler has a callback function that is run: if the
  function throws \<^verbatim>\<open>null\<close> or \<^verbatim>\<open>undefined\<close>, reading \<^verbatim>\<open>error.message\<close> in the \<^verbatim>\<open>catch\<close> block
  throws, so the middleware makes no host call and rejects with that \<^verbatim>\<open>TypeError\<close>, not with
  the thrown value. If it throws any other value \<open>e\<close>, the middleware answers the callback
  query with an alert whose text is the value's \<^verbatim>\<open>message\<close> (\<open>Unknown error\<close> when that is
  \<^verbatim>\<open>undefined\<close> or \<^verbatim>\<open>null\<close>) and rejects with the same \<open>e\<close>; if the function has not settled
  when the timer fires, the same happens with the timeout error, whose message is the
  \<^verbatim>\<open>timeoutErrorText\<close> of the options or the default. Every other error raised in the \<^verbatim>\<open>try\<close>
  block whose message can be read is answered and rethrown in this way.
\<close>

theorem callback_error_notice:
  assumes "find_handler m ctx w = Some h"
    and "parseAction (handler_action h) = Some p"
    and "action p = Some Callback" and "sourceId p = menu_id m"
    and "callback_message_id ctx = active_message (session w)"
    and "callbackFn h = Some fn"
    and "getState m (session w) = (Ok st, sa)"
    and "read_prop (menu_session sa) ''activeMenuLoaderData'' = Some d"
    and "run fn ctx (getCallbackActions m ctx) d (w\<lparr>session := sa\<rparr>) = (r, wb)"
  shows "(r = Err e \<and> (e = Null \<or> e = Undefined) \<longrightarrow>
            middleware run m ctx nxt w = (Err TypeError, wb) \<and> TypeError \<noteq> e)
       \<and> (r = Err e \<and> e \<noteq> Null \<and> e \<noteq> Undefined \<longrightarrow>
            (\<exists>msg. read_prop e ''message'' = Some msg
               \<and> middleware run m ctx nxt w
                   = (Err e,
                      wb\<lparr>log := log wb @
                           [AnswerCallbackQuery
                              (Some (if msg = Undefined \<or> msg = Null then Str ''Unknown error''
                                     else msg))
                              True]\<rparr>)))
       \<and> (r = Never \<longrightarrow>
            middleware run m ctx nxt w
              = (Err (Error_new (timeout_text m)),
                 wb\<lparr>log := log wb @ [AnswerCallbackQuery (Some (Str (timeout_text m))) True]\<rparr>))
       \<and> timeout_text m =
           (case options m of
              None \<Rightarrow> ''The action took too long to execute''
            | Some opts \<Rightarrow>
                (case timeoutErrorText opts of
                   None \<Rightarrow> ''The action took too long to execute''
                 | Some t \<Rightarrow> t))
       \<and> (\<forall>x wx msg. handle_try run m ctx (action p) h w = (Err x, wx)
              \<and> read_prop x ''message'' = Some msg \<longrightarrow>
            middleware run m ctx nxt w
              = (Err x,
                 wx\<lparr>log := log wx @
                      [AnswerCallbackQuery
                         (Some (if msg = Undefined \<or> msg = Null then Str ''Unknown error''
                                else msg))
                         True]\<rparr>))"
proof -
  have mw: "middleware run m ctx nxt w =
           (case handle_try run m ctx (action p) h w of
              (Err e, w') \<Rightarrow>
                (case read_prop e ''message'' of
                   None \<Rightarrow> (Err TypeError, w')
                 | Some msg \<Rightarrow>
                     (Err e, w'\<lparr>log := log w' @ [AnswerCallbackQuery
                                    (Some (coalesce msg (Str ''Unknown error''))) True]\<rparr>))
            | settled \<Rightarrow> settled)"
    using assms(1-5) by (intro middleware_handled) auto
  have ht: "handle_try run m ctx (action p) h w =
           (case r of
              Ok u \<Rightarrow> (Ok (), wb\<lparr>log := log wb @ [AnswerCallbackQuery None False]\<rparr>)
            | Err e \<Rightarrow> (Err e, wb)
            | Never \<Rightarrow> (Err (Error_new (timeout_text m)), wb))"
    unfolding assms(3) using assms(6-9) by (rule handle_try_run)
  have nullish_case: "middleware run m ctx nxt w = (Err TypeError, wb) \<and> TypeError \<noteq> e"
    if "r = Err e \<and> (e = Null \<or> e = Undefined)"
    using that unfolding mw ht by (auto simp: TypeError_def Error_new_def)
  have readable: "\<exists>msg. read_prop e ''message'' = Some msg
               \<and> middleware run m ctx nxt w
                   = (Err e,
                      wb\<lparr>log := log wb @
                           [AnswerCallbackQuery
                              (Some (if msg = Undefined \<or> msg = Null then Str ''Unknown error''
                                     else msg))
                              True]\<rparr>)"
    if "r = Err e \<and> e \<noteq> Null \<and> e \<noteq> Undefined"
  proof -
    from that obtain msg where "read_prop e ''message'' = Some msg"
      using read_prop_None_iff [of e "''message''"]
      by (cases "read_prop e ''message''") (auto simp: nullish_def)
    with that show ?thesis
      unfolding mw ht by (auto simp: coalesce_def nullish_def)
  qed
  have late: "middleware run m ctx nxt w
              = (Err (Error_new (timeout_text m)),
                 wb\<lparr>log := log wb @ [AnswerCallbackQuery (Some (Str (timeout_text m))) True]\<rparr>)"
    if "r = Never"
    using that unfolding mw ht by (simp add: Error_new_def coalesce_def nullish_def)
  have any: "middleware run m ctx nxt w
              = (Err x,
                 wx\<lparr>log := log wx @
                      [AnswerCallbackQuery
                         (Some (if msg = Undefined \<or> msg = Null then Str ''Unknown error''
                                else msg))
                         True]\<rparr>)"
    if "handle_try run m ctx (action p) h w = (Err x, wx) \<and> read_prop x ''message'' = Some msg"
    for x wx msg
    using that unfolding mw by (auto simp: coalesce_def nullish_def)
  have which: "timeout_text m =
           (case options m of
              None \<Rightarrow> ''The action took too long to execute''
            | Some opts \<Rightarrow>
                (case timeoutErrorText opts of
                   None \<Rightarrow> ''The action took too long to execute''
                 | Some t \<Rightarrow> t))"
    by (simp add: timeout_text_def default_timeoutErrorText_def split: option.splits)
  from nullish_case readable late any which show ?thesis
    by blast
qed

text \<open>The theorem at the example menu, button \<open>A\<close> pressed on the active message: with a
  callback function that throws \<^verbatim>\<open>null\<close> the middleware rejects with the \<^verbatim>\<open>TypeError\<close> and no
  host call is made; with the one that throws the error \<open>boom\<close> it answers with that text
  and rejects with that error.\<close>

theorem callback_error_notice_witness:
  "middleware (\<lambda>fn cx actions d w. (Err Null, w)) demo_menu
       (demo_ctx (Some 42) ''eijdfwof:abc123:call:aaaaaa'' (Some 1)) (resolve ()) active_world
     = (Err TypeError, active_world)
   \<and> middleware demo_run demo_menu (demo_ctx (Some 42) ''eijdfwof:abc123:call:aaaaaa'' (Some 1))
       (resolve ()) active_world
     = (Err (Error_new ''boom''),
        active_world\<lparr>log := [AnswerCallbackQuery (Some (Str ''boom'')) True]\<rparr>)"
proof -
  let ?ctx = "demo_ctx (Some 42) ''eijdfwof:abc123:call:aaaaaa'' (Some 1)"
  let ?h = "\<lparr>handler_action = ''eijdfwof:abc123:call:aaaaaa'', callbackFn = Some (1::nat)\<rparr>"
  let ?p = "\<lparr>action = Some Callback, sourceId = ''abc123'', targetId = Some ''aaaaaa''\<rparr>"
  let ?thrower = "\<lambda>(fn::nat) (cx::Context) (actions::nat MenuCallbackActions) (d::jsval)
                    (w::nat World). (Err Null :: unit res, w)"
  have live: "callback_message_id ?ctx = active_message (session active_world)"
    by (simp add: callback_message_id_demo active_message_active_world)
  have data: "read_prop (menu_session (session active_world)) ''activeMenuLoaderData''
      = Some Undefined"
    by (simp add: active_world_def)
  have same: "active_world\<lparr>session := session active_world\<rparr> = active_world"
    by simp
  have empty: "log active_world = []"
    by (simp add: active_world_def)
  have "middleware ?thrower demo_menu ?ctx (resolve ()) active_world = (Err TypeError, active_world)"
    using callback_error_notice [where m = demo_menu and ctx = ?ctx
        and w = active_world and run = ?thrower and nxt = "resolve ()"
        and h = ?h and p = ?p and fn = 1 and st = False and sa = "session active_world"
        and d = Undefined and r = "Err Null" and wb = active_world and e = Null,
        THEN conjunct1]
      find_demo_A parse_demo_A live getState_active_world data
    by (simp add: menu_id_demo)
  moreover have run: "demo_run 1 ?ctx (getCallbackActions demo_menu ?ctx) Undefined
               (active_world\<lparr>session := session active_world\<rparr>)
             = (Err (Error_new ''boom''), active_world)"
    by (simp add: demo_run_def)
  have "middleware demo_run demo_menu ?ctx (resolve ()) active_world
     = (Err (Error_new ''boom''),
        active_world\<lparr>log := [AnswerCallbackQuery (Some (Str ''boom'')) True]\<rparr>)"
    using callback_error_notice [where m = demo_menu and ctx = ?ctx
        and w = active_world and run = demo_run and nxt = "resolve ()"
        and h = ?h and p = ?p and fn = 1 and st = False and sa = "session active_world"
        and d = Undefined and r = "Err (Error_new ''boom'')" and wb = active_world
        and e = "Error_new ''boom''", THEN conjunct2, THEN conjunct1]
      find_demo_A parse_demo_A live getState_active_world data run
    by (simp add: menu_id_demo Error_new_def empty)
  ultimately show ?thesis by simp
qed

subsection \<open>C9: the arguments of a refresh\<close>

text \<open>
  Claim C9. \<^verbatim>\<open>refresh(args)\<close> of a callback's \<^verbatim>\<open>ctx.menu\<close> is \<open>render\<close> of the same menu with
  these arguments: when the persisted arguments are an object, the object whose
  properties are those of the persisted arguments overridden by those of \<open>args\<close> (the last
  value given for a key counts); otherwise \<open>args\<close> itself unless it is null or undefined,
  and then the persisted arguments. The example of the claim is computed. That \<open>render\<close>,
  when its layout is built, has called the loader with exactly these arguments, persists
  them, and makes one host call, the edit of the message. The objects are the values made
  of properties, and the values that count as not given are \<^verbatim>\<open>undefined\<close> and \<^verbatim>\<open>null\<close>.
\<close>

theorem refresh_merges_args:
  assumes "read_prop (menu_session (session w)) ''activeMenuLoaderArgs'' = Some sessionArgs"
  shows "refresh (getCallbackActions m ctx) args w
           = render m ctx (refresh_args sessionArgs args) w
       \<and> (is_object prev \<longrightarrow>
            (\<exists>ps. refresh_args prev args = Obj ps
               \<and> map_of ps = map_of (rev (own_props prev)) ++ map_of (rev (own_props args))))
       \<and> (\<not> is_object prev \<longrightarrow> refresh_args prev args = (if nullish args then prev else args))
       \<and> refresh_args (Obj [(''resetCount'', Bool False), (''other'', Str ''x'')])
            (Obj [(''resetCount'', Bool True)])
           = Obj [(''resetCount'', Bool True), (''other'', Str ''x'')]
       \<and> (\<forall>a l wa. buildLayout m ctx a w = (Ok l, wa) \<longrightarrow>
            (\<exists>sb r sc. loaderFn m ctx a sb = (Ok r, sc) \<and> layout_text l = lr_text r)
            \<and> log (snd (render m ctx a w))
                = log w @ [EditMessageText (layout_text l) (layout_parseMode l) (layout_keyboard l)]
            \<and> read_prop (menu_session (session (snd (render m ctx a w)))) ''activeMenuLoaderArgs''
                = Some a)
       \<and> is_object prev = (\<exists>ps. prev = Obj ps)
       \<and> nullish args = (args = Undefined \<or> args = Null)"
proof (intro conjI impI allI)
  show "refresh (getCallbackActions m ctx) args w
           = render m ctx (refresh_args sessionArgs args) w"
    using assms by (simp add: getCallbackActions_def)
  show "\<exists>ps. refresh_args prev args = Obj ps
               \<and> map_of ps = map_of (rev (own_props prev)) ++ map_of (rev (own_props args))"
    if "is_object prev"
    using that by (rule refresh_args_object)
  show "refresh_args prev args = (if nullish args then prev else args)" if "\<not> is_object prev"
    using that by (simp add: refresh_args_def coalesce_def)
  show "refresh_args (Obj [(''resetCount'', Bool False), (''other'', Str ''x'')])
            (Obj [(''resetCount'', Bool True)])
           = Obj [(''resetCount'', Bool True), (''other'', Str ''x'')]"
    by (simp add: refresh_args_def spread2_def coalesce_def nullish_def assign_props_def)
  show "is_object prev = (\<exists>ps. prev = Obj ps)"
    by (cases prev) simp_all
  show "nullish args = (args = Undefined \<or> args = Null)"
    by (simp add: nullish_def)
next
  fix a l wa
  assume ok: "buildLayout m ctx a w = (Ok l, wa)"
  show "\<exists>sb r sc. loaderFn m ctx a sb = (Ok r, sc) \<and> layout_text l = lr_text r"
    using ok by (rule render_success(1))
  show "log (snd (render m ctx a w))
                = log w @ [EditMessageText (layout_text l) (layout_parseMode l) (layout_keyboard l)]"
    using ok by (rule render_success(2))
  show "read_prop (menu_session (session (snd (render m ctx a w)))) ''activeMenuLoaderArgs''
                = Some a"
    using ok by (rule render_success(3))
qed

text \<open>The theorem at the example menu, in the world whose persisted arguments are
  \<^verbatim>\<open>{resetCount: false, other: "x"}\<close>, refreshed with \<^verbatim>\<open>{resetCount: true}\<close>.\<close>

theorem refresh_merges_args_witness:
  "read_prop (menu_session (session (snd (refresh
              (getCallbackActions demo_menu
                 (demo_ctx (Some 42) ''eijdfwof:abc123:call:bbbbbb'' (Some 1)))
              (Obj [(''resetCount'', Bool True)]) active_world)))) ''activeMenuLoaderArgs''
      = Some (Obj [(''resetCount'', Bool True), (''other'', Str ''x'')])
   \<and> (\<exists>pm kb. log (snd (refresh
              (getCallbackActions demo_menu
                 (demo_ctx (Some 42) ''eijdfwof:abc123:call:bbbbbb'' (Some 1)))
              (Obj [(''resetCount'', Bool True)]) active_world))
          = [EditMessageText ''Menu'' pm kb])"
proof -
  let ?ctx = "demo_ctx (Some 42) ''eijdfwof:abc123:call:bbbbbb'' (Some 1)"
  let ?prev = "Obj [(''resetCount'', Bool False), (''other'', Str ''x'')]"
  let ?over = "Obj [(''resetCount'', Bool True)]"
  let ?merged = "Obj [(''resetCount'', Bool True), (''other'', Str ''x'')]"
  have prev: "read_prop (menu_session (session active_world)) ''activeMenuLoaderArgs''
      = Some ?prev"
    by (simp add: active_world_def)
  note facts = refresh_merges_args [where w = active_world and sessionArgs = ?prev
      and m = demo_menu and ctx = ?ctx and args = ?over and prev = ?prev, OF prev]
  have merged: "refresh_args ?prev ?over = ?merged"
    using facts [THEN conjunct2, THEN conjunct2, THEN conjunct2, THEN conjunct1] .
  have same: "refresh (getCallbackActions demo_menu ?ctx) ?over active_world
      = render demo_menu ?ctx ?merged active_world"
    using facts [THEN conjunct1] unfolding merged .
  have obj: "is_object (menu_session (session active_world))"
    by (simp add: active_world_def)
  obtain l wa where ok: "buildLayout demo_menu ?ctx ?merged active_world = (Ok l, wa)"
    and menu: "layout_text l = ''Menu''"
    using demo_buildLayout [OF disjI2 [OF obj], where ctx = ?ctx and args = ?merged]
    by (elim exE conjE)
  note after = facts [THEN conjunct2, THEN conjunct2, THEN conjunct2, THEN conjunct2,
      THEN conjunct1, rule_format, OF ok]
  have "read_prop (menu_session (session (snd (render demo_menu ?ctx ?merged active_world))))
          ''activeMenuLoaderArgs'' = Some ?merged"
    using after by (elim conjE)
  moreover have "log (snd (render demo_menu ?ctx ?merged active_world))
      = [EditMessageText ''Menu'' (layout_parseMode l) (layout_keyboard l)]"
    using after menu by (simp add: active_world_def)
  ultimately show ?thesis
    unfolding same by blast
qed

subsection \<open>C10: contexts without a chat\<close>

text \<open>
  Claim C10. For a context without a chat the key of the dynamic handler map is the empty
  string, in \<open>buildLayout\<close>, which stores the handlers of the build under it, and in the
  middleware's lookup alike; no context with a chat has that key. So the contexts without
  a chat all use one map per menu, and each of their renders replaces it. In general two
  contexts have the same key exactly when they have the same chat or both have none.
\<close>

theorem chatless_registry_shared:
  assumes "chat ctx = None"
  shows "chat_key ctx = []
       \<and> (\<forall>cx. (chat_key cx = []) = (chat cx = None))
       \<and> find_handler m ctx w =
           (case staticActionHandlersByAction m (callback_data ctx) of
              Some h \<Rightarrow> Some h
            | None \<Rightarrow>
                (case dynamicActionHandlersByActionByChatId w (menu_id m) [] of
                   None \<Rightarrow> None
                 | Some dm \<Rightarrow> dm (callback_data ctx)))
       \<and> (\<forall>l wa. buildLayout m ctx args w = (Ok l, wa) \<longrightarrow>
             (\<exists>sb r sc b sd.
                 loaderFn m ctx args sb = (Ok r, sc)
               \<and> build (builder m) ctx (lr_data r) sc = (Ok b, sd)
               \<and> dynamicActionHandlersByActionByChatId wa (menu_id m) []
                   = Some (handler_map (dynamicHandlers b))
               \<and> (\<forall>k. k \<noteq> [] \<longrightarrow>
                     dynamicActionHandlersByActionByChatId wa (menu_id m) k
                       = dynamicActionHandlersByActionByChatId w (menu_id m) k)))
       \<and> (\<forall>cx cy. (chat_key cx = chat_key cy) = (chat cx = chat cy))"
proof (intro conjI allI impI)
  show "(chat_key cx = chat_key cy) = (chat cx = chat cy)" for cx cy
    by (rule chat_key_inj)
  show key: "chat_key ctx = []"
    using assms by (simp add: chat_key_def)
  show "(chat_key cx = []) = (chat cx = None)" for cx
    by (rule chat_key_Nil_iff)
  show "find_handler m ctx w =
           (case staticActionHandlersByAction m (callback_data ctx) of
              Some h \<Rightarrow> Some h
            | None \<Rightarrow>
                (case dynamicActionHandlersByActionByChatId w (menu_id m) [] of
                   None \<Rightarrow> None
                 | Some dm \<Rightarrow> dm (callback_data ctx)))"
    unfolding find_handler_def key by (rule refl)
  fix l wa
  assume ok: "buildLayout m ctx args w = (Ok l, wa)"
  from buildLayout_Ok_ex [OF ok] obtain sb r sc b sd where
    lo: "loaderFn m ctx args sb = (Ok r, sc)"
    and b: "build (builder m) ctx (lr_data r) sc = (Ok b, sd)"
    and reg: "dynamicActionHandlersByActionByChatId wa =
                  (dynamicActionHandlersByActionByChatId w)
                    (menu_id m := (dynamicActionHandlersByActionByChatId w (menu_id m))
                                    (chat_key ctx \<mapsto> handler_map (dynamicHandlers b)))"
    by (elim exE conjE)
  show "\<exists>sb r sc b sd.
                 loaderFn m ctx args sb = (Ok r, sc)
               \<and> build (builder m) ctx (lr_data r) sc = (Ok b, sd)
               \<and> dynamicActionHandlersByActionByChatId wa (menu_id m) []
                   = Some (handler_map (dynamicHandlers b))
               \<and> (\<forall>k. k \<noteq> [] \<longrightarrow>
                     dynamicActionHandlersByActionByChatId wa (menu_id m) k
                       = dynamicActionHandlersByActionByChatId w (menu_id m) k)"
    apply (rule exI [of _ sb], rule exI [of _ r], rule exI [of _ sc], rule exI [of _ b],
        rule exI [of _ sd])
    using lo b by (simp add: reg key)
qed

text \<open>The theorem at the example menu: a chat-less context with a fresh session resolves
  the button \<open>X\<close> that another chat-less context has rendered, until a third one renders
  the menu with only \<open>Z\<close>.\<close>

theorem chatless_registry_shared_witness:
  "find_handler demo_menu (demo_ctx None ''eijdfwof:abc123:call:xxxxxx'' (Some 5))
     ((snd (render demo_menu (demo_ctx None [] None) Undefined demo_world))
        \<lparr>session := demo_session\<rparr>)
     = Some \<lparr>handler_action = ''eijdfwof:abc123:call:xxxxxx'', callbackFn = Some 3\<rparr>
   \<and> find_handler demo_menu (demo_ctx None ''eijdfwof:abc123:call:xxxxxx'' (Some 5))
     (snd (render demo_menu (demo_ctx None [] (Some 9)) (Bool True)
        ((snd (render demo_menu (demo_ctx None [] None) Undefined demo_world))
           \<lparr>session := demo_session\<rparr>)))
     = None"
proof -
  let ?ca = "demo_ctx None [] None"
  let ?cb = "demo_ctx None [] (Some 9)"
  let ?cx = "demo_ctx None ''eijdfwof:abc123:call:xxxxxx'' (Some 5)"
  let ?wa = "(snd (render demo_menu ?ca Undefined demo_world))\<lparr>session := demo_session\<rparr>"
  let ?wb = "snd (render demo_menu ?cb (Bool True) ?wa)"
  have chatless: "chat ?cx = None" "chat ?cb = None"
    by (simp_all add: demo_ctx_def)
  have find: "find_handler demo_menu ?cx w =
           (case dynamicActionHandlersByActionByChatId w ''abc123'' [] of
              None \<Rightarrow> None
            | Some dm \<Rightarrow> dm ''eijdfwof:abc123:call:xxxxxx'')" for w
    using chatless_registry_shared [OF chatless(1), of demo_menu w, THEN conjunct2,
        THEN conjunct2, THEN conjunct1]
    unfolding callback_data_demo demo_static_X menu_id_demo by simp
  from demo_first_render [OF disjI1 [OF demo_world_fresh], where ctx = ?ca] obtain dm where
    "dynamicActionHandlersByActionByChatId (snd (render demo_menu ?ca Undefined demo_world))
        ''abc123'' (chat_key ?ca) = Some dm"
    and "dm ''eijdfwof:abc123:call:xxxxxx''
            = Some \<lparr>handler_action = ''eijdfwof:abc123:call:xxxxxx'', callbackFn = Some 3\<rparr>"
    by (elim exE conjE)
  then have first: "find_handler demo_menu ?cx ?wa
     = Some \<lparr>handler_action = ''eijdfwof:abc123:call:xxxxxx'', callbackFn = Some 3\<rparr>"
    by (simp add: find chat_key_demo)
  have "nullish (menu_session (session ?wa))"
    by (simp add: demo_session_def nullish_def)
  then obtain l wc where ok: "buildLayout demo_menu ?cb (Bool True) ?wa = (Ok l, wc)"
    using demo_buildLayout [where w = ?wa and ctx = ?cb and args = "Bool True"] by blast
  from chatless_registry_shared [OF chatless(2), of demo_menu ?wa "Bool True", THEN conjunct2,
      THEN conjunct2, THEN conjunct2, THEN conjunct1, rule_format, OF ok]
  obtain sb r sc b sd where
    lo: "loaderFn demo_menu ?cb (Bool True) sb = (Ok r, sc)"
    and b: "build (builder demo_menu) ?cb (lr_data r) sc = (Ok b, sd)"
    and reg: "dynamicActionHandlersByActionByChatId wc (menu_id demo_menu) []
                   = Some (handler_map (dynamicHandlers b))"
    by (elim exE conjE)
  have "lr_data r = Bool True"
    using lo by (rule loader_demo)
  with b demo_build [of ?cb "Bool True" sc]
  have "dynamicHandlers b
      = [\<lparr>handler_action = ''eijdfwof:abc123:call:zzzzzz'', callbackFn = Some 0\<rparr>]"
    by auto
  then have "handler_map (dynamicHandlers b) ''eijdfwof:abc123:call:xxxxxx'' = None"
    by (simp add: handler_map_def)
  then have "find_handler demo_menu ?cx ?wb = None"
    using reg by (simp add: find registry_after_render [OF ok] menu_id_demo)
  with first show ?thesis by simp
qed

end
